theory Spec2Isabelle
  imports Complex_Main "HOL-Library.Sublist"
begin

section \<open>Errors\<close>

text \<open>
  The error kinds of \<^verbatim>\<open>sdf::ErrorCode\<close> that the modelled functions push.  An
  \<^verbatim>\<open>sdf::Error\<close> is modelled by its code and its message; the source location it
  may carry (file path, XML path, line number) never influences control flow and is left
  out of the model.
\<close>

datatype ErrorCode =
    FILE_READ | PARSING_ERROR | DUPLICATE_NAME | RESERVED_NAME
  | ATTRIBUTE_MISSING | ATTRIBUTE_INVALID | ATTRIBUTE_INCORRECT_TYPE
  | ELEMENT_MISSING | ELEMENT_INVALID | ELEMENT_DEPRECATED | ELEMENT_INCORRECT_TYPE
  | URI_LOOKUP | LINK_INERTIA_INVALID | MODEL_PLACEMENT_FRAME_INVALID
  | MERGE_INCLUDE_UNSUPPORTED | PARAMETER_ERROR

datatype Error = Error (Code: ErrorCode) (Message: string)

type_synonym Errors = "Error list"

section \<open>Link.cc: the child collections of a link\<close>

text \<open>
  The classes \<^verbatim>\<open>Visual\<close>, \<^verbatim>\<open>Collision\<close>, \<^verbatim>\<open>Light\<close>, \<^verbatim>\<open>Sensor\<close> and
  \<^verbatim>\<open>ParticleEmitter\<close> are used by \<^verbatim>\<open>Link.cc\<close> only through \<^verbatim>\<open>Name()\<close>,
  \<^verbatim>\<open>Load\<close> and \<^verbatim>\<open>ToElement\<close>.  An object of one of them is a name together with
  the rest of its state, of an arbitrary type.
\<close>

record 'x Entity =
  Name :: string
  payload :: 'x

datatype Vector3d = Vector3d real real real

datatype Pose3d = Pose3d real real real real real real

definition Pose3d_Zero :: Pose3d where
  "Pose3d_Zero = Pose3d 0 0 0 0 0 0"

definition Vector3d_One :: Vector3d where
  "Vector3d_One = Vector3d 1 1 1"

definition Vector3d_Zero :: Vector3d where
  "Vector3d_Zero = Vector3d 0 0 0"

text \<open>\<^verbatim>\<open>ignition::math::MassMatrix3d\<close>: the mass, the diagonal moments (ixx, iyy, izz)
  and the off-diagonal moments (ixy, ixz, iyz).\<close>

record MassMatrix3d =
  Mass :: real
  DiagonalMoments :: Vector3d
  OffDiagonalMoments :: Vector3d

record Inertiald =
  MassMatrix :: MassMatrix3d
  InertialPose :: Pose3d

text \<open>\<^verbatim>\<open>sdf::Link::Implementation\<close>, without the element pointer kept from the load and
  the handle to the pose graph of the enclosing scope.\<close>

record 'x Link =
  link_name :: string
  pose :: Pose3d
  poseRelativeTo :: string
  visuals :: "'x Entity list"
  lights :: "'x Entity list"
  collisions :: "'x Entity list"
  sensors :: "'x Entity list"
  emitters :: "'x Entity list"
  inertial :: Inertiald
  enableWind :: bool

definition Link_new :: "'x Link" where
  "Link_new = \<lparr> link_name = [], pose = Pose3d_Zero, poseRelativeTo = [],
     visuals = [], lights = [], collisions = [], sensors = [], emitters = [],
     inertial = \<lparr> MassMatrix = \<lparr> Mass = 1, DiagonalMoments = Vector3d_One,
                                  OffDiagonalMoments = Vector3d_Zero \<rparr>,
                  InertialPose = Pose3d_Zero \<rparr>,
     enableWind = False \<rparr>"

text \<open>The loops of \<^verbatim>\<open>VisualNameExists\<close>, \<^verbatim>\<open>CollisionNameExists\<close>,
  \<^verbatim>\<open>SensorNameExists\<close> and \<^verbatim>\<open>ParticleEmitterNameExists\<close>: return true at the first
  element whose name is the one asked for, false after the last.\<close>

fun NameExists_loop :: "'x Entity list \<Rightarrow> string \<Rightarrow> bool" where
  "NameExists_loop [] n = False"
| "NameExists_loop (v # vs) n = (if Name v = n then True else NameExists_loop vs n)"

text \<open>The loop of \<^verbatim>\<open>LightByName\<close> (and of the other \<^verbatim>\<open>ByName\<close> accessors): a
  pointer to the first element of that name, or the null pointer.\<close>

fun ByName_loop :: "'x Entity list \<Rightarrow> string \<Rightarrow> 'x Entity option" where
  "ByName_loop [] n = None"
| "ByName_loop (c # cs) n = (if Name c = n then Some c else ByName_loop cs n)"

definition VisualNameExists :: "'x Link \<Rightarrow> string \<Rightarrow> bool" where
  "VisualNameExists l n = NameExists_loop (visuals l) n"

definition CollisionNameExists :: "'x Link \<Rightarrow> string \<Rightarrow> bool" where
  "CollisionNameExists l n = NameExists_loop (collisions l) n"

definition LightByName :: "'x Link \<Rightarrow> string \<Rightarrow> 'x Entity option" where
  "LightByName l n = ByName_loop (lights l) n"

definition LightNameExists :: "'x Link \<Rightarrow> string \<Rightarrow> bool" where
  "LightNameExists l n = (LightByName l n \<noteq> None)"

definition SensorNameExists :: "'x Link \<Rightarrow> string \<Rightarrow> bool" where
  "SensorNameExists l n = NameExists_loop (sensors l) n"

definition ParticleEmitterNameExists :: "'x Link \<Rightarrow> string \<Rightarrow> bool" where
  "ParticleEmitterNameExists l n = NameExists_loop (emitters l) n"

text \<open>The \<^verbatim>\<open>Add\<close> operations return their boolean together with the link after the
  call.\<close>

definition AddCollision :: "'x Link \<Rightarrow> 'x Entity \<Rightarrow> bool \<times> 'x Link" where
  "AddCollision l c =
     (if CollisionNameExists l (Name c) then (False, l)
      else (True, l\<lparr>collisions := collisions l @ [c]\<rparr>))"

definition AddVisual :: "'x Link \<Rightarrow> 'x Entity \<Rightarrow> bool \<times> 'x Link" where
  "AddVisual l v =
     (if VisualNameExists l (Name v) then (False, l)
      else (True, l\<lparr>visuals := visuals l @ [v]\<rparr>))"

definition AddLight :: "'x Link \<Rightarrow> 'x Entity \<Rightarrow> bool \<times> 'x Link" where
  "AddLight l c =
     (if LightNameExists l (Name c) then (False, l)
      else (True, l\<lparr>lights := lights l @ [c]\<rparr>))"

definition AddSensor :: "'x Link \<Rightarrow> 'x Entity \<Rightarrow> bool \<times> 'x Link" where
  "AddSensor l s =
     (if SensorNameExists l (Name s) then (False, l)
      else (True, l\<lparr>sensors := sensors l @ [s]\<rparr>))"

definition AddParticleEmitter :: "'x Link \<Rightarrow> 'x Entity \<Rightarrow> bool \<times> 'x Link" where
  "AddParticleEmitter l e =
     (if ParticleEmitterNameExists l (Name e) then (False, l)
      else (True, l\<lparr>emitters := emitters l @ [e]\<rparr>))"

text \<open>A sequence of \<^verbatim>\<open>Add\<close> calls on one link, each return value discarded.\<close>

datatype 'x AddCall =
    CallAddCollision "'x Entity" | CallAddVisual "'x Entity" | CallAddLight "'x Entity"
  | CallAddSensor "'x Entity" | CallAddParticleEmitter "'x Entity"

fun callAdd :: "'x AddCall \<Rightarrow> 'x Link \<Rightarrow> 'x Link" where
  "callAdd (CallAddCollision c) l = snd (AddCollision l c)"
| "callAdd (CallAddVisual c) l = snd (AddVisual l c)"
| "callAdd (CallAddLight c) l = snd (AddLight l c)"
| "callAdd (CallAddSensor c) l = snd (AddSensor l c)"
| "callAdd (CallAddParticleEmitter c) l = snd (AddParticleEmitter l c)"

fun callAdds :: "'x AddCall list \<Rightarrow> 'x Link \<Rightarrow> 'x Link" where
  "callAdds [] l = l"
| "callAdds (c # cs) l = callAdds cs (callAdd c l)"

definition namesDistinct :: "'x Link \<Rightarrow> bool" where
  "namesDistinct l =
     (distinct (map Name (visuals l)) \<and> distinct (map Name (collisions l)) \<and>
      distinct (map Name (lights l)) \<and> distinct (map Name (sensors l)) \<and>
      distinct (map Name (emitters l)))"

section \<open>The XML document (tinyxml2)\<close>

text \<open>
  A \<^verbatim>\<open>tinyxml2::XMLElement\<close>: its tag, its attributes in document order, its text
  (\<^verbatim>\<open>GetText()\<close>, null when there is none) and its child elements in document order.
  Line numbers are left out.
\<close>

datatype XMLElement =
  XMLElement (XValue: string) (XAttributes: "(string \<times> string) list")
    (XGetText: "string option") (XChildren: "XMLElement list")

text \<open>\<^verbatim>\<open>FirstChildElement(name)\<close>: the first child with that tag, or null.\<close>

definition FirstChildElement :: "XMLElement \<Rightarrow> string \<Rightarrow> XMLElement option" where
  "FirstChildElement x n = find (\<lambda>c. XValue c = n) (XChildren x)"

text \<open>\<^verbatim>\<open>Attribute(name)\<close>: the value of the first attribute of that name, or null.\<close>

definition Attribute :: "XMLElement \<Rightarrow> string \<Rightarrow> string option" where
  "Attribute x n = map_of (XAttributes x) n"

text \<open>An \<^verbatim>\<open>XMLDocument\<close> is the list of its top-level elements.\<close>

type_synonym XMLDocument = "XMLElement list"

definition Doc_FirstChildElement :: "XMLDocument \<Rightarrow> string \<Rightarrow> XMLElement option" where
  "Doc_FirstChildElement d n = find (\<lambda>c. XValue c = n) d"

section \<open>The element tree (sdf::Element, sdf::Param)\<close>

text \<open>
  Modelled from the spec: \<^verbatim>\<open>Element.cc\<close> and \<^verbatim>\<open>Param.cc\<close> are not among the sources.
  The spec's data model: an element is a node with a string name, an ordered list of named
  attributes (each with a declared type, default, required flag and current value), an
  optional typed value, an ordered list of child elements and its schema description (the
  descriptions of the children it may have); instance nodes clone from the matching
  description when inserted.

  An attribute holds its value as the string it was set from.  The value of an element is
  typed; a typed \<^verbatim>\<open>Set\<close> stores the value as it is (the text conversion of numbers
  that \<^verbatim>\<open>Param\<close> goes through is taken to be exact), and a typed \<^verbatim>\<open>Get\<close> at
  another type than the stored one leaves the caller's default.
\<close>

datatype Color = Color real real real real

datatype ParamValue =
    PString string | PBool bool | PDouble real | PFloat real
  | PPose Pose3d | PColor Color | PUnsigned nat

fun asString :: "ParamValue \<Rightarrow> string option" where
  "asString (PString s) = Some s" | "asString _ = None"

fun asBool :: "ParamValue \<Rightarrow> bool option" where
  "asBool (PBool b) = Some b" | "asBool _ = None"

fun asDouble :: "ParamValue \<Rightarrow> real option" where
  "asDouble (PDouble d) = Some d" | "asDouble _ = None"

fun asFloat :: "ParamValue \<Rightarrow> real option" where
  "asFloat (PFloat d) = Some d" | "asFloat _ = None"

fun asPose :: "ParamValue \<Rightarrow> Pose3d option" where
  "asPose (PPose p) = Some p" | "asPose _ = None"

fun asColor :: "ParamValue \<Rightarrow> Color option" where
  "asColor (PColor c) = Some c" | "asColor _ = None"

text \<open>A \<^verbatim>\<open>Param\<close>: key, type name, required flag, default, current value and the flag
  that it was set.  Attributes are \<open>string Param\<close>, element values \<open>ParamValue Param\<close>.\<close>

record 'v Param =
  key :: string
  typeName :: string
  isRequired :: bool
  defaultValue :: 'v
  val :: 'v
  isSet :: bool

text \<open>\<^verbatim>\<open>Param::Set\<close> and \<^verbatim>\<open>Param::Reset\<close>.\<close>

definition Param_Set :: "'v \<Rightarrow> 'v Param \<Rightarrow> 'v Param" where
  "Param_Set v p = p\<lparr>val := v, isSet := True\<rparr>"

definition Param_Reset :: "'v Param \<Rightarrow> 'v Param" where
  "Param_Reset p = p\<lparr>val := defaultValue p, isSet := False\<rparr>"

record ElementImpl =
  name :: string
  required :: string
  copyChildren :: bool
  referenceSDF :: string
  path :: string
  originalVersion :: string
  explicitlySetInFile :: bool
  attributes :: "string Param list"
  elemValue :: "ParamValue Param option"

datatype Element =
  Element (impl: ElementImpl) (elements: "Element list")
    (elementDescriptions: "Element list") (includeElement: "Element option")

definition GetName :: "Element \<Rightarrow> string" where
  "GetName e = name (impl e)"

definition GetRequired :: "Element \<Rightarrow> string" where
  "GetRequired e = required (impl e)"

definition GetCopyChildren :: "Element \<Rightarrow> bool" where
  "GetCopyChildren e = copyChildren (impl e)"

definition ReferenceSDF :: "Element \<Rightarrow> string" where
  "ReferenceSDF e = referenceSDF (impl e)"

definition FilePath :: "Element \<Rightarrow> string" where
  "FilePath e = path (impl e)"

definition OriginalVersion :: "Element \<Rightarrow> string" where
  "OriginalVersion e = originalVersion (impl e)"

definition GetValue :: "Element \<Rightarrow> ParamValue Param option" where
  "GetValue e = elemValue (impl e)"

text \<open>In-place changes of an element, as functions on the element.\<close>

fun updImpl :: "(ElementImpl \<Rightarrow> ElementImpl) \<Rightarrow> Element \<Rightarrow> Element" where
  "updImpl f (Element i es ds inc) = Element (f i) es ds inc"

fun setElements :: "Element list \<Rightarrow> Element \<Rightarrow> Element" where
  "setElements es' (Element i es ds inc) = Element i es' ds inc"

fun SetIncludeElement :: "Element \<Rightarrow> Element \<Rightarrow> Element" where
  "SetIncludeElement info (Element i es ds inc) = Element i es ds (Some info)"

definition SetFilePath :: "string \<Rightarrow> Element \<Rightarrow> Element" where
  "SetFilePath p = updImpl (\<lambda>i. i\<lparr>path := p\<rparr>)"

definition SetOriginalVersion :: "string \<Rightarrow> Element \<Rightarrow> Element" where
  "SetOriginalVersion v = updImpl (\<lambda>i. i\<lparr>originalVersion := v\<rparr>)"

definition SetExplicitlySetInFile :: "bool \<Rightarrow> Element \<Rightarrow> Element" where
  "SetExplicitlySetInFile b = updImpl (\<lambda>i. i\<lparr>explicitlySetInFile := b\<rparr>)"

text \<open>A new \<^verbatim>\<open>Element\<close> (the default constructor), and \<^verbatim>\<open>SetName\<close>.\<close>

definition Element_new :: Element where
  "Element_new = Element \<lparr> name = [], required = [], copyChildren = False,
     referenceSDF = [], path = [], originalVersion = [], explicitlySetInFile = True,
     attributes = [], elemValue = None \<rparr> [] [] None"

definition SetName :: "string \<Rightarrow> Element \<Rightarrow> Element" where
  "SetName n = updImpl (\<lambda>i. i\<lparr>name := n\<rparr>)"

text \<open>\<^verbatim>\<open>GetAttribute(key)\<close>: the first attribute of that key, or null;
  \<^verbatim>\<open>HasAttribute\<close>.\<close>

definition GetAttribute :: "Element \<Rightarrow> string \<Rightarrow> string Param option" where
  "GetAttribute e k = find (\<lambda>p. key p = k) (attributes (impl e))"

definition HasAttribute :: "Element \<Rightarrow> string \<Rightarrow> bool" where
  "HasAttribute e k = (GetAttribute e k \<noteq> None)"

text \<open>A change made through the pointer that \<^verbatim>\<open>GetAttribute(key)\<close> returned: it
  reaches the first attribute of that key.\<close>

fun updFirstParam :: "string \<Rightarrow> ('v Param \<Rightarrow> 'v Param) \<Rightarrow> 'v Param list \<Rightarrow> 'v Param list" where
  "updFirstParam k f [] = []"
| "updFirstParam k f (p # ps) = (if key p = k then f p # ps else p # updFirstParam k f ps)"

definition updAttribute :: "string \<Rightarrow> (string Param \<Rightarrow> string Param) \<Rightarrow> Element \<Rightarrow> Element" where
  "updAttribute k f = updImpl (\<lambda>i. i\<lparr>attributes := updFirstParam k f (attributes i)\<rparr>)"

text \<open>\<^verbatim>\<open>AddAttribute(key, type, default, required)\<close> appends a new attribute.\<close>

definition AddAttribute :: "string \<Rightarrow> string \<Rightarrow> string \<Rightarrow> bool \<Rightarrow> Element \<Rightarrow> Element" where
  "AddAttribute k ty d r = updImpl (\<lambda>i. i\<lparr>attributes := attributes i @
     [\<lparr> key = k, typeName = ty, isRequired = r, defaultValue = d, val = d, isSet = False \<rparr>]\<rparr>)"

text \<open>\<^verbatim>\<open>AddValue(type, default, required)\<close> gives the element a value.\<close>

definition AddValue :: "string \<Rightarrow> ParamValue \<Rightarrow> bool \<Rightarrow> Element \<Rightarrow> Element" where
  "AddValue ty d r = updImpl (\<lambda>i. i\<lparr>elemValue :=
     Some \<lparr> key = name i, typeName = ty, isRequired = r, defaultValue = d, val = d,
            isSet = False \<rparr>\<rparr>)"

definition updValue :: "(ParamValue Param \<Rightarrow> ParamValue Param) \<Rightarrow> Element \<Rightarrow> Element" where
  "updValue f = updImpl (\<lambda>i. i\<lparr>elemValue := map_option f (elemValue i)\<rparr>)"

text \<open>\<^verbatim>\<open>GetElementImpl(name)\<close>: the first child of that name, or null;
  \<^verbatim>\<open>HasElement\<close>; \<^verbatim>\<open>FindElement\<close> is the same lookup.\<close>

definition GetElementImpl :: "Element \<Rightarrow> string \<Rightarrow> Element option" where
  "GetElementImpl e n = find (\<lambda>c. GetName c = n) (elements e)"

definition HasElement :: "Element \<Rightarrow> string \<Rightarrow> bool" where
  "HasElement e n = (GetElementImpl e n \<noteq> None)"

definition FindElement :: "Element \<Rightarrow> string \<Rightarrow> Element option" where
  "FindElement e n = GetElementImpl e n"

definition GetFirstElement :: "Element \<Rightarrow> Element option" where
  "GetFirstElement e = (case elements e of [] \<Rightarrow> None | c # _ \<Rightarrow> Some c)"

text \<open>\<^verbatim>\<open>GetElementDescription(name)\<close>: the first child description of that name.\<close>

definition GetElementDescription :: "Element \<Rightarrow> string \<Rightarrow> Element option" where
  "GetElementDescription e n = find (\<lambda>d. GetName d = n) (elementDescriptions e)"

definition HasElementDescription :: "Element \<Rightarrow> string \<Rightarrow> bool" where
  "HasElementDescription e n = (GetElementDescription e n \<noteq> None)"

text \<open>\<^verbatim>\<open>InsertElement(child)\<close> appends the child.\<close>

fun InsertElement :: "Element \<Rightarrow> Element \<Rightarrow> Element" where
  "InsertElement c (Element i es ds inc) = Element i (es @ [c]) ds inc"

text \<open>A change made through a pointer to the first child of a name.\<close>

fun updFirstChild :: "string \<Rightarrow> (Element \<Rightarrow> Element) \<Rightarrow> Element list \<Rightarrow> Element list" where
  "updFirstChild n f [] = []"
| "updFirstChild n f (c # cs) = (if GetName c = n then f c # cs else c # updFirstChild n f cs)"

definition updElementImpl :: "string \<Rightarrow> (Element \<Rightarrow> Element) \<Rightarrow> Element \<Rightarrow> Element" where
  "updElementImpl n f e = setElements (updFirstChild n f (elements e)) e"

text \<open>A change made through a pointer to the last child (the one just added).\<close>

definition updLastChild :: "(Element \<Rightarrow> Element) \<Rightarrow> Element \<Rightarrow> Element" where
  "updLastChild f e =
     (case rev (elements e) of [] \<Rightarrow> e | c # cs \<Rightarrow> setElements (rev cs @ [f c]) e)"

text \<open>\<^verbatim>\<open>Clone()\<close> of a child description followed by the loop of \<^verbatim>\<open>AddElement\<close> that
  adds to the clone every child whose description has required cardinality \<open>1\<close>, each
  again through \<^verbatim>\<open>AddElement\<close>.\<close>

lemma find_size_Element:
  "find P ds = Some (d :: Element) \<Longrightarrow> size d < Suc (size_list size ds)"
  by (induction ds) (auto split: if_splits)

function cloneWithRequired :: "Element \<Rightarrow> Element" where
  "cloneWithRequired (Element i es ds inc) =
     fold (\<lambda>d2 e.
        if GetRequired d2 = ''1''
        then (case find (\<lambda>d. GetName d = GetName d2) ds of
                None \<Rightarrow> e
              | Some d3 \<Rightarrow> InsertElement (cloneWithRequired d3) e)
        else e) ds (Element i es ds inc)"
  by pat_completeness auto
termination
  by (relation "measure size") (auto dest!: find_size_Element)

text \<open>\<^verbatim>\<open>AddElement(name)\<close>: null when the element has no child description of that name;
  otherwise the new child is appended, and the returned pointer is to the last child.\<close>

definition AddElement :: "Element \<Rightarrow> string \<Rightarrow> Element option" where
  "AddElement e n =
     (case GetElementDescription e n of
        None \<Rightarrow> None
      | Some d \<Rightarrow> Some (InsertElement (cloneWithRequired d) e))"

text \<open>Changes made through the pointer returned by \<^verbatim>\<open>GetElementImpl(name)\<close> and by
  \<^verbatim>\<open>GetElement(name)\<close> (the first child of that name; \<^verbatim>\<open>GetElement\<close>
  adds the child when there is none).  The change \<open>f\<close> may dereference a null pointer
  (result \<open>None\<close>); \<open>ifNull\<close> is what happens when the returned pointer itself is null.\<close>

fun updFirstChildO ::
  "string \<Rightarrow> (Element \<Rightarrow> Element option) \<Rightarrow> Element list \<Rightarrow> Element list option" where
  "updFirstChildO n f [] = Some []"
| "updFirstChildO n f (c # cs) =
     (if GetName c = n then map_option (\<lambda>c'. c' # cs) (f c)
      else map_option ((#) c) (updFirstChildO n f cs))"

definition withElementImpl ::
  "string \<Rightarrow> (Element \<Rightarrow> Element option) \<Rightarrow> Element option \<Rightarrow> Element \<Rightarrow> Element option" where
  "withElementImpl n f ifNull e =
     (if HasElement e n
      then map_option (\<lambda>cs. setElements cs e) (updFirstChildO n f (elements e))
      else ifNull)"

definition withElement ::
  "string \<Rightarrow> (Element \<Rightarrow> Element option) \<Rightarrow> Element option \<Rightarrow> Element \<Rightarrow> Element option" where
  "withElement n f ifNull e =
     (if HasElement e n
      then map_option (\<lambda>cs. setElements cs e) (updFirstChildO n f (elements e))
      else (case GetElementDescription e n of
              None \<Rightarrow> ifNull
            | Some d \<Rightarrow> map_option (\<lambda>c. InsertElement c e) (f (cloneWithRequired d))))"

text \<open>\<^verbatim>\<open>GetAttribute(key)->Set(v)\<close>: a null pointer dereference when the element has no
  such attribute.\<close>

definition setAttribute :: "string \<Rightarrow> string \<Rightarrow> Element \<Rightarrow> Element option" where
  "setAttribute k v e =
     (if HasAttribute e k then Some (updAttribute k (Param_Set v) e) else None)"

text \<open>\<^verbatim>\<open>Element::Set(v)\<close> sets the value of the element when it has one.\<close>

definition Element_Set :: "ParamValue \<Rightarrow> Element \<Rightarrow> Element" where
  "Element_Set v = updValue (Param_Set v)"

text \<open>\<^verbatim>\<open>Element::Get<T>(key, default)\<close>, with \<open>proj\<close> the reading of a value at type
  \<open>T\<close> and \<open>d0\<close> the default-constructed \<open>T\<close>: the element's own value for the empty
  key; otherwise the attribute of that key, else the value of the first child of that name,
  else the value of the child description of that name.  The boolean says whether the key
  was found.\<close>

definition GetOwn :: "(ParamValue \<Rightarrow> 'a option) \<Rightarrow> Element \<Rightarrow> 'a \<Rightarrow> 'a" where
  "GetOwn proj e d =
     (case GetValue e of
        None \<Rightarrow> d
      | Some p \<Rightarrow> (case proj (val p) of None \<Rightarrow> d | Some a \<Rightarrow> a))"

definition Get :: "(ParamValue \<Rightarrow> 'a option) \<Rightarrow> 'a \<Rightarrow> Element \<Rightarrow> string \<Rightarrow> 'a \<Rightarrow> 'a \<times> bool" where
  "Get proj d0 e k d =
     (if k = [] then
        (case GetValue e of None \<Rightarrow> (d, False) | Some p \<Rightarrow> (GetOwn proj e d, True))
      else
        (case GetAttribute e k of
           Some p \<Rightarrow> ((case proj (PString (val p)) of None \<Rightarrow> d | Some a \<Rightarrow> a), True)
         | None \<Rightarrow>
            (case GetElementImpl e k of
               Some c \<Rightarrow> (GetOwn proj c d0, True)
             | None \<Rightarrow>
                (case GetElementDescription e k of
                   Some dsc \<Rightarrow> (GetOwn proj dsc d0, True)
                 | None \<Rightarrow> (d, False)))))"

section \<open>parser.cc: merge-include\<close>

definition computeMergedModelProxyFrameName :: "string \<Rightarrow> string" where
  "computeMergedModelProxyFrameName modelName = ''_merged__'' @ modelName @ ''__model__''"

text \<open>
  What \<^verbatim>\<open>insertIncludedElement\<close> reads from the \<^verbatim>\<open>sdf::Model\<close> of the throwaway
  \<^verbatim>\<open>sdf::Root\<close> (\<^verbatim>\<open>Root.cc\<close>, \<^verbatim>\<open>Model.cc\<close> and the frame semantics are not among the
  sources): its name, the second component of \<^verbatim>\<open>CanonicalLinkAndRelativeName()\<close>, its
  raw pose, its placement frame name, its \<^verbatim>\<open>PoseRelativeTo()\<close>, and the outcome of
  \<^verbatim>\<open>SemanticPose().Resolve(X_RM)\<close>: the errors and the pose left in \<^verbatim>\<open>X_RM\<close>.
\<close>

record ModelInfo =
  Model_Name :: string
  CanonicalLinkRelativeName :: string
  RawPose :: Pose3d
  PlacementFrameName :: string
  PoseRelativeTo :: string
  SemanticPose_Resolve :: "Errors \<times> Pose3d"

text \<open>The lambda \<^verbatim>\<open>setAttributeToProxyFrame\<close> on a non-null element.\<close>

definition setAttributeToProxyFrame :: "string \<Rightarrow> string \<Rightarrow> bool \<Rightarrow> Element \<Rightarrow> Element option" where
  "setAttributeToProxyFrame proxyModelFrameName attr updateIfEmpty elem =
     (case GetAttribute elem attr of
        None \<Rightarrow> None
      | Some attribute \<Rightarrow>
          if val attribute = ''__model__'' \<or> (updateIfEmpty \<and> val attribute = [])
          then Some (updAttribute attr (Param_Set proxyModelFrameName) elem)
          else Some elem)"

text \<open>The joint's \<^verbatim>\<open>parent\<close> and \<^verbatim>\<open>child\<close>: set to the proxy frame name when the
  element exists and its string value is \<^verbatim>\<open>__model__\<close>.\<close>

definition setValueToProxyFrame :: "string \<Rightarrow> Element \<Rightarrow> Element option" where
  "setValueToProxyFrame proxyModelFrameName e =
     (if GetOwn asString e [] = ''__model__''
      then Some (Element_Set (PString proxyModelFrameName) e) else Some e)"

text \<open>The body of the loop over the children of the merged model, up to the insertion.\<close>

definition rewriteMergedChild :: "string \<Rightarrow> Element \<Rightarrow> Element option" where
  "rewriteMergedChild proxy elem =
     (if GetName elem = ''link'' \<or> GetName elem = ''model'' then
        withElement ''pose'' (setAttributeToProxyFrame proxy ''relative_to'' True) (Some elem) elem
      else if GetName elem = ''frame'' then
        Option.bind (setAttributeToProxyFrame proxy ''attached_to'' True elem)
          (\<lambda>e1. withElementImpl ''pose''
                   (setAttributeToProxyFrame proxy ''relative_to'' False) (Some e1) e1)
      else if GetName elem = ''joint'' then
        Option.bind (withElementImpl ''pose''
                      (setAttributeToProxyFrame proxy ''relative_to'' False) (Some elem) elem)
          (\<lambda>e1. Option.bind (withElementImpl ''parent'' (setValueToProxyFrame proxy) (Some e1) e1)
          (\<lambda>e2. Option.bind (withElementImpl ''child'' (setValueToProxyFrame proxy) (Some e2) e2)
          (\<lambda>e3. Option.bind
             (withElementImpl ''axis''
                (\<lambda>axis. withElementImpl ''xyz''
                   (setAttributeToProxyFrame proxy ''expressed_in'' False) (Some axis) axis)
                (Some e3) e3)
          (\<lambda>e4. withElementImpl ''axis2''
                (\<lambda>axis2. withElementImpl ''xyz''
                   (setAttributeToProxyFrame proxy ''expressed_in'' False) (Some axis2) axis2)
                (Some e4) e4))))
      else Some elem)"

text \<open>Only named and custom elements are copied into the parent.\<close>

definition isHoisted :: "Element \<Rightarrow> bool" where
  "isHoisted elem =
     (GetName elem = ''link'' \<or> GetName elem = ''model'' \<or> GetName elem = ''joint'' \<or>
      GetName elem = ''frame'' \<or> GetName elem = ''gripper'' \<or> GetName elem = ''plugin'' \<or>
      CHR '':'' \<in> set (GetName elem))"

fun mergeChildren :: "string \<Rightarrow> Element list \<Rightarrow> Element \<Rightarrow> Element option" where
  "mergeChildren proxy [] parent = Some parent"
| "mergeChildren proxy (elem # rest) parent =
     (case rewriteMergedChild proxy elem of
        None \<Rightarrow> None
      | Some elem' \<Rightarrow>
          mergeChildren proxy rest
            (if isHoisted elem' then InsertElement elem' parent else parent))"

text \<open>The proxy frame: \<^verbatim>\<open>_parent->AddElement("frame")\<close>, its name and
  \<^verbatim>\<open>attached_to\<close>, its \<^verbatim>\<open>pose\<close> child with the model pose and \<^verbatim>\<open>relative_to\<close>.\<close>

definition modelPoseRelativeTo :: "ModelInfo \<Rightarrow> string" where
  "modelPoseRelativeTo m = (if PoseRelativeTo m = [] then ''__model__'' else PoseRelativeTo m)"

definition makeProxyModelFrame :: "ModelInfo \<Rightarrow> Pose3d \<Rightarrow> Element \<Rightarrow> Element option" where
  "makeProxyModelFrame m modelPose proxyModelFrame =
     Option.bind (setAttribute ''name'' (computeMergedModelProxyFrameName (Model_Name m))
                    proxyModelFrame)
       (\<lambda>f1. Option.bind (setAttribute ''attached_to'' (CanonicalLinkRelativeName m) f1)
       (\<lambda>f2. Option.bind (AddElement f2 ''pose'')
       (\<lambda>f3. Option.bind
          (setAttribute ''relative_to'' (modelPoseRelativeTo m)
             (Element_Set (PPose modelPose) (last (elements f3))))
       (\<lambda>proxyModelFramePose. Some (setElements (butlast (elements f3) @ [proxyModelFramePose]) f3)))))"

definition mergeModel :: "ModelInfo \<Rightarrow> Element \<Rightarrow> Element \<Rightarrow> Errors \<Rightarrow> (Element \<times> Errors) option" where
  "mergeModel m firstElem parent errors =
     (case GetElementDescription parent ''frame'' of
        None \<Rightarrow> None
      | Some d \<Rightarrow>
         (let (errors1, modelPose) =
                (if PlacementFrameName m \<noteq> []
                 then (errors @ fst (SemanticPose_Resolve m), snd (SemanticPose_Resolve m))
                 else (errors, RawPose m))
          in Option.bind (makeProxyModelFrame m modelPose (cloneWithRequired d))
            (\<lambda>proxyModelFrame.
               map_option (\<lambda>p. (p, errors1))
                 (mergeChildren (computeMergedModelProxyFrameName (Model_Name m))
                    (elements firstElem) (InsertElement proxyModelFrame parent)))))"

text \<open>\<^verbatim>\<open>insertIncludedElement\<close>.  \<open>Root_Load\<close> stands for the load of the throwaway
  \<^verbatim>\<open>sdf::Root\<close>: its errors and its model, if any.  The result is the parent element
  and the error list after the call; \<open>None\<close> is a null pointer dereference.\<close>

definition invalidFileError :: Error where
  "invalidFileError = Error FILE_READ ''Included model is invalid. Skipping model.''"

definition insertIncludedElement ::
  "(Element \<Rightarrow> Errors \<times> ModelInfo option) \<Rightarrow> Element option \<Rightarrow> bool \<Rightarrow> Element \<Rightarrow> Errors
     \<Rightarrow> (Element \<times> Errors) option" where
  "insertIncludedElement Root_Load includeSDF_Root merge parent errors =
     (case includeSDF_Root of
        None \<Rightarrow> Some (parent, errors @ [invalidFileError])
      | Some rootElem \<Rightarrow>
         (case GetFirstElement rootElem of
            None \<Rightarrow> Some (parent, errors @ [invalidFileError])
          | Some firstElem \<Rightarrow>
              if \<not> merge then Some (InsertElement firstElem parent, errors)
              else if GetName firstElem \<noteq> ''model'' then
                Some (parent, errors @ [Error MERGE_INCLUDE_UNSUPPORTED
                  ''Merge-include is only supported for included models''])
              else if GetName parent \<noteq> ''model'' then
                Some (parent, errors @ [Error MERGE_INCLUDE_UNSUPPORTED
                  (''Merge-include does not support parent element of type '' @ GetName parent)])
              else
                (let (includeDOMerrors, model) = Root_Load rootElem;
                     errors1 = errors @ includeDOMerrors
                 in case model of
                      None \<Rightarrow>
                        Some (parent, errors1 @ [Error MERGE_INCLUDE_UNSUPPORTED
                          ''Included model is invalid. Skipping model.''])
                    | Some m \<Rightarrow> mergeModel m firstElem parent errors1)))"

section \<open>parser.cc: the collaborators of the reader\<close>

text \<open>
  Modelled from the spec: \<^verbatim>\<open>ParserConfig\<close> and
  \<^verbatim>\<open>enforceConfigurablePolicyCondition\<close> (\<^verbatim>\<open>Utils.cc\<close>) are not among the sources.
  The spec: the policies control the handling of elements and attributes not in the
  schema, of deprecated elements and of warnings; an error is recorded under the policy
  \<^verbatim>\<open>ERR\<close> and only printed otherwise.
\<close>

datatype EnforcementPolicy = ERR | WARN | LOG

record ParserConfig =
  WarningsPolicy :: EnforcementPolicy
  UnrecognizedElementsPolicy :: EnforcementPolicy
  DeprecatedElementsPolicy :: EnforcementPolicy
  CustomModelParsers_empty :: bool

definition enforceConfigurablePolicyCondition ::
  "EnforcementPolicy \<Rightarrow> Error \<Rightarrow> Errors \<Rightarrow> Errors" where
  "enforceConfigurablePolicyCondition policy err errors =
     (case policy of ERR \<Rightarrow> errors @ [err] | WARN \<Rightarrow> errors | LOG \<Rightarrow> errors)"

text \<open>
  What the reader calls and the sources do not hold, as parameters of the model:
  the check of a frame reference (\<^verbatim>\<open>Utils.cc\<close>); \<^verbatim>\<open>Param::SetFromString\<close> and
  \<^verbatim>\<open>Param::Reparse\<close> (the parameter after the call, or \<open>None\<close> when the call
  returns false); the replacement of an element by its reference schema
  (\<^verbatim>\<open>initFile\<close> of an embedded schema followed by \<^verbatim>\<open>Element::Copy\<close>); the file
  system (\<^verbatim>\<open>findFile\<close>, \<^verbatim>\<open>is_directory\<close>, \<^verbatim>\<open>getModelFilePath\<close>); the root
  element of the template that \<^verbatim>\<open>init\<close> builds from the embedded root schema; the
  nested read of an included file (\<^verbatim>\<open>readFile\<close>, which re-enters the reader through
  the file system: its return value, the root element of the included document and the
  errors it appends); \<^verbatim>\<open>ParamPassing::updateParams\<close>; the load of the throwaway
  \<^verbatim>\<open>sdf::Root\<close>; tinyxml2's reading of a boolean attribute; the version converter,
  the current version and the comparison of a version with 1.8
  (\<^verbatim>\<open>ignition::math::SemanticVersion\<close>); the constant that names a string as the
  source of a document.
\<close>

record Collaborators =
  isValidFrameReference :: "string \<Rightarrow> bool"
  Attribute_SetFromString :: "string Param \<Rightarrow> string \<Rightarrow> string Param option"
  Value_SetFromString :: "ParamValue Param \<Rightarrow> string \<Rightarrow> ParamValue Param option"
  Value_Reparse :: "ParamValue Param \<Rightarrow> ParamValue Param option"
  resolveReferenceSDF :: "Element \<Rightarrow> Element"
  findFile :: "string \<Rightarrow> string"
  is_directory :: "string \<Rightarrow> bool"
  getModelFilePath :: "string \<Rightarrow> string"
  includeSDFTemplate :: Element
  readFile :: "string \<Rightarrow> Element \<Rightarrow> bool \<times> Element \<times> Errors"
  updateParams :: "XMLElement \<Rightarrow> Element \<Rightarrow> Element \<times> Errors"
  Root_Load :: "Element \<Rightarrow> Errors \<times> ModelInfo option"
  XMLUtil_ToBool :: "string \<Rightarrow> bool option"
  Converter_Convert :: "XMLDocument \<Rightarrow> XMLDocument"
  SDF_Version :: string
  versionAtLeast_1_8 :: "string \<Rightarrow> bool"
  kSdfStringSource :: string

text \<open>\<^verbatim>\<open>p->SetFromString(text)\<close> on the first attribute of a key, the return value
  first.  The attribute is there at every call of this function.\<close>

definition attributeSetFromString ::
  "Collaborators \<Rightarrow> string \<Rightarrow> string \<Rightarrow> Element \<Rightarrow> bool \<times> Element" where
  "attributeSetFromString env k text e =
     (case GetAttribute e k of
        None \<Rightarrow> (False, e)
      | Some p \<Rightarrow>
         (case Attribute_SetFromString env p text of
            None \<Rightarrow> (False, e)
          | Some p' \<Rightarrow> (True, updAttribute k (\<lambda>_. p') e)))"

text \<open>\<^verbatim>\<open>GetValue()->SetFromString(text)\<close> with the return value ignored; a null pointer
  dereference when the element has no value.\<close>

definition valueSetFromString :: "Collaborators \<Rightarrow> string \<Rightarrow> Element \<Rightarrow> Element option" where
  "valueSetFromString env text e =
     (case GetValue e of
        None \<Rightarrow> None
      | Some p \<Rightarrow>
         (case Value_SetFromString env p text of
            None \<Rightarrow> Some e
          | Some p' \<Rightarrow> Some (updValue (\<lambda>_. p') e)))"

section \<open>parser.cc: readAttributes\<close>

definition frameReferenceAttributes :: "(string \<times> string) list" where
  "frameReferenceAttributes =
     [(''frame'', ''attached_to''), (''pose'', ''relative_to''),
      (''model'', ''placement_frame''), (''model'', ''canonical_link''),
      (''custom_rpy'', ''parent_frame'')]"

fun readAttributes_loop ::
  "Collaborators \<Rightarrow> ParserConfig \<Rightarrow> string \<Rightarrow> (string \<times> string) list \<Rightarrow> Element \<Rightarrow> Errors
     \<Rightarrow> bool \<times> Element \<times> Errors" where
  "readAttributes_loop env config xmlValue [] sdf errors = (True, sdf, errors)"
| "readAttributes_loop env config xmlValue ((aName, aValue) # others) sdf errors =
     (if CHR '':'' \<in> set aName then
        readAttributes_loop env config xmlValue others
          (snd (attributeSetFromString env aName aValue
                  (AddAttribute aName ''string'' [] True sdf))) errors
      else
        (case GetAttribute sdf aName of
           Some p \<Rightarrow>
             (let errors1 =
                (if (GetName sdf, aName) \<in> set frameReferenceAttributes
                    \<and> \<not> isValidFrameReference env aValue
                 then errors @ [Error ATTRIBUTE_INVALID
                        ([CHR 0x27] @ aValue
                          @ [CHR 0x27] @ '' is reserved; it cannot be used as a value of attribute [''
                          @ key p @ '']'')]
                 else errors)
              in case Attribute_SetFromString env p aValue of
                   None \<Rightarrow>
                     (False, sdf, errors1 @ [Error ATTRIBUTE_INVALID
                        (''Unable to read attribute['' @ key p @ '']'')])
                 | Some p' \<Rightarrow>
                     readAttributes_loop env config xmlValue others
                       (updAttribute aName (\<lambda>_. p') sdf) errors1)
         | None \<Rightarrow>
             readAttributes_loop env config xmlValue others sdf
               (enforceConfigurablePolicyCondition (WarningsPolicy config)
                  (Error ATTRIBUTE_INCORRECT_TYPE
                     (''XML Attribute['' @ aName @ ''] in element['' @ xmlValue
                        @ ''] not defined in SDF.''))
                  errors)))"

definition readAttributes ::
  "Collaborators \<Rightarrow> ParserConfig \<Rightarrow> XMLElement \<Rightarrow> Element \<Rightarrow> Errors
     \<Rightarrow> bool \<times> Element \<times> Errors" where
  "readAttributes env config xml sdf errors =
     (case readAttributes_loop env config (XValue xml) (XAttributes xml) sdf errors of
        (False, sdf1, errors1) \<Rightarrow> (False, sdf1, errors1)
      | (True, sdf1, errors1) \<Rightarrow>
         (case find (\<lambda>p. isRequired p \<and> \<not> isSet p) (attributes (impl sdf1)) of
            Some p \<Rightarrow>
              (False, sdf1, errors1 @ [Error ATTRIBUTE_MISSING
                 (''Required attribute['' @ key p @ ''] in element['' @ XValue xml
                    @ ''] is not specified in SDF.'')])
          | None \<Rightarrow> (True, sdf1, errors1)))"

section \<open>parser.cc: copyChildren\<close>

text \<open>The attribute loops of \<^verbatim>\<open>copyChildren\<close>: on an element made from a description
  (a null pointer dereference when the description has no such attribute), and on a new
  element.\<close>

fun copyAttributes ::
  "Collaborators \<Rightarrow> (string \<times> string) list \<Rightarrow> Element \<Rightarrow> Element option" where
  "copyAttributes env [] element = Some element"
| "copyAttributes env ((aName, aValue) # others) element =
     (if HasAttribute element aName
      then copyAttributes env others (snd (attributeSetFromString env aName aValue element))
      else None)"

fun addAttributes :: "Collaborators \<Rightarrow> (string \<times> string) list \<Rightarrow> Element \<Rightarrow> Element" where
  "addAttributes env [] element = element"
| "addAttributes env ((aName, aValue) # others) element =
     addAttributes env others
       (snd (attributeSetFromString env aName aValue
               (AddAttribute aName ''string'' [] True element)))"

text \<open>The last child of an element replaced: the changes made through the pointer that
  \<^verbatim>\<open>AddElement\<close> returned.\<close>

definition setLastChild :: "Element \<Rightarrow> Element \<Rightarrow> Element" where
  "setLastChild c e = setElements (butlast (elements e) @ [c]) e"

function copyChildren ::
  "Collaborators \<Rightarrow> Element \<Rightarrow> XMLElement list \<Rightarrow> bool \<Rightarrow> Element option" where
  "copyChildren env sdf [] onlyUnknown = Some sdf"
| "copyChildren env sdf (elemXml # others) onlyUnknown =
     (if HasElementDescription sdf (XValue elemXml) then
        (if \<not> onlyUnknown then
           (case AddElement sdf (XValue elemXml) of
              None \<Rightarrow> None
            | Some sdf1 \<Rightarrow>
               (case copyAttributes env (XAttributes elemXml) (last (elements sdf1)) of
                  None \<Rightarrow> None
                | Some element1 \<Rightarrow>
                   (case (case XGetText elemXml of
                            None \<Rightarrow> Some element1
                          | Some text \<Rightarrow> valueSetFromString env text element1) of
                      None \<Rightarrow> None
                    | Some element2 \<Rightarrow>
                       (case copyChildren env element2 (XChildren elemXml) onlyUnknown of
                          None \<Rightarrow> None
                        | Some element3 \<Rightarrow>
                            copyChildren env (setLastChild element3 sdf1) others onlyUnknown))))
         else copyChildren env sdf others onlyUnknown)
      else
        (let element1 = addAttributes env (XAttributes elemXml)
                          (SetName (XValue elemXml) Element_new);
             element2 = (case XGetText elemXml of
                           None \<Rightarrow> element1
                         | Some text \<Rightarrow> AddValue ''string'' (PString text) True element1)
         in case copyChildren env element2 (XChildren elemXml) onlyUnknown of
              None \<Rightarrow> None
            | Some element3 \<Rightarrow> copyChildren env (InsertElement element3 sdf) others onlyUnknown))"
  by pat_completeness auto
termination
  by (relation "measure (\<lambda>(env, sdf, xs, u). size_list size xs)")
     (auto, (case_tac elemXml, simp)+)

section \<open>parser.cc: the steps of an include\<close>

text \<open>How one pass through the body of the loop over the children ends: with
  \<^verbatim>\<open>continue\<close>, with \<^verbatim>\<open>return false\<close>, by falling through to the code after the
  include block, or by going on inside the block.\<close>

datatype 'a Step = Continue Errors | ReturnFalse Errors | FallThrough Errors | Proceed 'a Errors

text \<open>\<^verbatim>\<open>isSdfFile\<close>: the extension from the last period on is \<^verbatim>\<open>.sdf\<close> or
  \<^verbatim>\<open>.world\<close>.\<close>

fun substrFromLastPeriod :: "string \<Rightarrow> string option" where
  "substrFromLastPeriod [] = None"
| "substrFromLastPeriod (c # cs) =
     (case substrFromLastPeriod cs of
        Some ext \<Rightarrow> Some ext
      | None \<Rightarrow> if c = CHR ''.'' then Some (c # cs) else None)"

definition isSdfFile :: "string \<Rightarrow> bool" where
  "isSdfFile fileName =
     (case substrFromLastPeriod fileName of
        Some ext \<Rightarrow> ext = ''.sdf'' \<or> ext = ''.world''
      | None \<Rightarrow> False)"

text \<open>\<^verbatim>\<open>resolveFileNameFromUri\<close>: the return value, the file name and the errors.
  \<open>None\<close>: a \<^verbatim>\<open>uri\<close> element without text (a string built from a null pointer).\<close>

definition resolveFileNameFromUri ::
  "Collaborators \<Rightarrow> XMLElement \<Rightarrow> Errors \<Rightarrow> (bool \<times> string \<times> Errors) option" where
  "resolveFileNameFromUri env includeXml errors =
     (case FirstChildElement includeXml ''uri'' of
        Some uriElement \<Rightarrow>
          (case XGetText uriElement of
             None \<Rightarrow> None
           | Some uri \<Rightarrow>
              (let modelPath = findFile env uri in
               if modelPath = [] then
                 Some (False, [], errors @ [Error URI_LOOKUP (''Unable to find uri['' @ uri @ '']'')])
               else if is_directory env modelPath then
                 (let fileName = getModelFilePath env modelPath in
                  if fileName = [] then
                    Some (False, fileName, errors @ [Error URI_LOOKUP
                      (''Unable to resolve uri['' @ uri @ ''] to model path ['' @ modelPath
                         @ ''] since it does not contain a model.config file.'')])
                  else Some (True, fileName, errors))
               else Some (True, modelPath, errors)))
      | None \<Rightarrow>
          Some (False, [], errors @ [Error ATTRIBUTE_MISSING
                  ''<include> element missing 'uri' attribute'']))"

text \<open>The loop over \<^verbatim>\<open>{"model", "actor", "light"}\<close>: the top-level element is the
  first child of the first of these names that the included root has (kept here as that
  name); each later name that the includeRoot also has gives an error.\<close>

fun topLevelLoop :: "Element \<Rightarrow> string list \<Rightarrow> string option \<Rightarrow> Errors \<Rightarrow> string option \<times> Errors" where
  "topLevelLoop includeRoot [] topLevelElem errors = (topLevelElem, errors)"
| "topLevelLoop includeRoot (elementType # others) topLevelElem errors =
     (if HasElement includeRoot elementType then
        (case topLevelElem of
           None \<Rightarrow> topLevelLoop includeRoot others (Some elementType) errors
         | Some chosen \<Rightarrow>
             topLevelLoop includeRoot others topLevelElem
               (errors @ [Error ELEMENT_INCORRECT_TYPE
                  (''Found other top level element <'' @ elementType @ ''> in addition to <''
                     @ chosen @ ''> in include file.'')]))
      else topLevelLoop includeRoot others topLevelElem errors)"

text \<open>\<^verbatim>\<open>topLevelElem->GetNextElement(type)\<close>, for the first child of that name: the
  next child of that name after it.\<close>

definition nextTopLevelElem :: "Element \<Rightarrow> string \<Rightarrow> Element option" where
  "nextTopLevelElem includeRoot ty =
     find (\<lambda>c. GetName c = ty) (tl (dropWhile (\<lambda>c. GetName c \<noteq> ty) (elements includeRoot)))"

text \<open>The overrides of the include on the top-level element: name, pose, static and
  placement frame.  \<open>None\<close> is a null pointer dereference.\<close>

definition overrideName :: "Collaborators \<Rightarrow> XMLElement \<Rightarrow> Element \<Rightarrow> Element option" where
  "overrideName env includeXml topLevelElem =
     (case FirstChildElement includeXml ''name'' of
        None \<Rightarrow> Some topLevelElem
      | Some nameXml \<Rightarrow>
         (case XGetText nameXml of
            None \<Rightarrow> None
          | Some overrideName \<Rightarrow>
              if HasAttribute topLevelElem ''name''
              then Some (snd (attributeSetFromString env ''name'' overrideName topLevelElem))
              else None))"

definition overridePoseAttribute ::
  "Collaborators \<Rightarrow> XMLElement \<Rightarrow> string \<Rightarrow> Element \<Rightarrow> Element" where
  "overridePoseAttribute env poseElemXml attribName poseElem =
     (case GetAttribute poseElem attribName of
        None \<Rightarrow> poseElem
      | Some attribParam \<Rightarrow>
         (case Attribute poseElemXml attribName of
            Some attrib \<Rightarrow> snd (attributeSetFromString env attribName attrib poseElem)
          | None \<Rightarrow> updAttribute attribName Param_Reset poseElem))"

definition overridePose :: "Collaborators \<Rightarrow> XMLElement \<Rightarrow> Element \<Rightarrow> Element option" where
  "overridePose env includeXml topLevelElem =
     (case FirstChildElement includeXml ''pose'' of
        None \<Rightarrow> Some topLevelElem
      | Some poseElemXml \<Rightarrow>
          withElement ''pose''
            (\<lambda>poseElem.
               let p1 = overridePoseAttribute env poseElemXml ''relative_to'' poseElem;
                   p2 = overridePoseAttribute env poseElemXml ''degrees'' p1;
                   p3 = overridePoseAttribute env poseElemXml ''rotation_format'' p2
               in case XGetText poseElemXml of
                    Some text \<Rightarrow> valueSetFromString env text p3
                  | None \<Rightarrow>
                      (case GetValue p3 of
                         None \<Rightarrow> None
                       | Some v \<Rightarrow> Some (updValue Param_Reset p3)))
            None topLevelElem)"

definition overrideStatic :: "Collaborators \<Rightarrow> XMLElement \<Rightarrow> Element \<Rightarrow> Element option" where
  "overrideStatic env includeXml topLevelElem =
     (case FirstChildElement includeXml ''static'' of
        None \<Rightarrow> Some topLevelElem
      | Some staticXml \<Rightarrow>
          withElement ''static''
            (\<lambda>staticElem.
               case XGetText staticXml of
                 None \<Rightarrow> None
               | Some text \<Rightarrow> valueSetFromString env text staticElem)
            None topLevelElem)"

definition overridePlacementFrame ::
  "Collaborators \<Rightarrow> XMLElement \<Rightarrow> Element \<Rightarrow> Errors \<Rightarrow> Element Step option" where
  "overridePlacementFrame env includeXml topLevelElem errors =
     (case FirstChildElement includeXml ''placement_frame'' of
        None \<Rightarrow> Some (Proceed topLevelElem errors)
      | Some placementFrameElem \<Rightarrow>
          if FirstChildElement includeXml ''pose'' = None then
            Some (ReturnFalse (errors @ [Error MODEL_PLACEMENT_FRAME_INVALID
              ''<pose> is required when specifying the placement_frame element'']))
          else
            (case XGetText placementFrameElem of
               None \<Rightarrow> None
             | Some placementFrameVal \<Rightarrow>
                (let errors1 =
                   (if \<not> isValidFrameReference env placementFrameVal
                    then errors @ [Error RESERVED_NAME
                      ([CHR 0x27] @ placementFrameVal @ [CHR 0x27]
                        @ '' is reserved; it cannot be used as a value of element [placement_frame]'')]
                    else errors)
                 in if HasAttribute topLevelElem ''placement_frame''
                    then Some (Proceed
                      (snd (attributeSetFromString env ''placement_frame'' placementFrameVal
                              topLevelElem)) errors1)
                    else None)))"

text \<open>The include block from the resolution of the file name to the placement frame.
  It goes on with the root element of the included document, in which the overrides have
  been made on the top-level element, and with the name of the top-level element.\<close>

definition includeOverrides ::
  "Collaborators \<Rightarrow> XMLElement \<Rightarrow> Element \<Rightarrow> string \<Rightarrow> Errors
     \<Rightarrow> (Element \<times> string) Step option" where
  "includeOverrides env includeXml includeRoot topLevelElementType errors =
     (case GetElementImpl includeRoot topLevelElementType of
        None \<Rightarrow> None
      | Some topLevelElem \<Rightarrow>
         (case overrideName env includeXml topLevelElem of
            None \<Rightarrow> None
          | Some top1 \<Rightarrow>
             (case overridePose env includeXml top1 of
                None \<Rightarrow> None
              | Some top2 \<Rightarrow>
                 (case (if topLevelElementType = ''model''
                        then overrideStatic env includeXml top2 else Some top2) of
                    None \<Rightarrow> None
                  | Some top3 \<Rightarrow>
                     (case (if topLevelElementType = ''model''
                            then overridePlacementFrame env includeXml top3 errors
                            else Some (Proceed top3 errors)) of
                        None \<Rightarrow> None
                      | Some (Proceed top4 errors1) \<Rightarrow>
                          Some (Proceed
                            (updElementImpl topLevelElementType (\<lambda>c. top4) includeRoot,
                             topLevelElementType) errors1)
                      | Some (Continue errors1) \<Rightarrow> Some (Continue errors1)
                      | Some (ReturnFalse errors1) \<Rightarrow> Some (ReturnFalse errors1)
                      | Some (FallThrough errors1) \<Rightarrow> Some (FallThrough errors1))))))"

definition includeHead ::
  "Collaborators \<Rightarrow> ParserConfig \<Rightarrow> XMLElement \<Rightarrow> Errors \<Rightarrow> (Element \<times> string) Step option" where
  "includeHead env config includeXml errors =
     (case resolveFileNameFromUri env includeXml errors of
        None \<Rightarrow> None
      | Some (False, fileName, errors1) \<Rightarrow> Some (Continue errors1)
      | Some (True, fileName, errors1) \<Rightarrow>
          if isSdfFile fileName \<or> CustomModelParsers_empty config then
            (case readFile env fileName (includeSDFTemplate env) of
               (False, includeRoot, readErrors) \<Rightarrow>
                 Some (ReturnFalse (errors1 @ readErrors
                   @ [Error FILE_READ (''Unable to read file['' @ fileName @ '']'')]))
             | (True, includeRoot, readErrors) \<Rightarrow>
                (case topLevelLoop includeRoot [''model'', ''actor'', ''light''] None
                        (errors1 @ readErrors) of
                   (None, errors2) \<Rightarrow>
                     Some (Continue (errors2 @ [Error ELEMENT_MISSING
                       ''Failed to find top level <model> / <actor> / <light> for <include>'']))
                 | (Some topLevelElementType, errors2) \<Rightarrow>
                     includeOverrides env includeXml includeRoot topLevelElementType
                       (if nextTopLevelElem includeRoot topLevelElementType \<noteq> None
                        then errors2 @ [Error ELEMENT_INCORRECT_TYPE
                          (''Found more than one '' @ topLevelElementType @ '' for <include>.'')]
                        else errors2)))
          else Some (FallThrough errors1))"

text \<open>The end of the include block: parameter passing, the copy of the include element
  kept on the first element of the included root, the merge attribute, and
  \<^verbatim>\<open>insertIncludedElement\<close>.\<close>

definition BoolAttribute :: "Collaborators \<Rightarrow> XMLElement \<Rightarrow> string \<Rightarrow> bool \<Rightarrow> bool" where
  "BoolAttribute env xml n d =
     (case Attribute xml n of
        None \<Rightarrow> d
      | Some v \<Rightarrow> (case XMLUtil_ToBool env v of None \<Rightarrow> d | Some b \<Rightarrow> b))"

definition includeTail ::
  "Collaborators \<Rightarrow> XMLElement \<Rightarrow> Element \<Rightarrow> Element \<Rightarrow> Errors \<Rightarrow> (Element \<times> Errors) option" where
  "includeTail env includeXml sdf includeRoot errors =
     (let (includeRoot1, errors1) =
            (case FirstChildElement includeXml ''experimental:params'' of
               None \<Rightarrow> (includeRoot, errors)
             | Some paramsXml \<Rightarrow>
                 (fst (updateParams env paramsXml includeRoot),
                  errors @ snd (updateParams env paramsXml includeRoot)))
      in case (case GetElementDescription sdf ''include'' of
                 None \<Rightarrow> Some includeRoot1
               | Some includeDesc \<Rightarrow>
                  (case copyChildren env includeDesc (XChildren includeXml) False of
                     None \<Rightarrow> None
                   | Some includeInfo \<Rightarrow>
                      (case elements includeRoot1 of
                         [] \<Rightarrow> None
                       | includeSDFFirstElem # others \<Rightarrow>
                           Some (setElements
                             (SetIncludeElement includeInfo includeSDFFirstElem # others) includeRoot1)))) of
           None \<Rightarrow> None
         | Some includeRoot2 \<Rightarrow>
             insertIncludedElement (Root_Load env) (Some includeRoot2)
               (BoolAttribute env includeXml ''merge'' False) sdf errors1)"

section \<open>parser.cc: readXml\<close>

text \<open>The value of the element: set from the text of the XML element, or reparsed and
  set from the empty string when there is no text.\<close>

definition readValue :: "Collaborators \<Rightarrow> XMLElement \<Rightarrow> Element \<Rightarrow> bool \<times> Element" where
  "readValue env xml sdf =
     (case GetValue sdf of
        None \<Rightarrow> (True, sdf)
      | Some p \<Rightarrow>
         (case XGetText xml of
            Some text \<Rightarrow>
              (case Value_SetFromString env p text of
                 None \<Rightarrow> (False, sdf)
               | Some p1 \<Rightarrow> (True, updValue (\<lambda>v. p1) sdf))
          | None \<Rightarrow>
              (case Value_Reparse env p of
                 None \<Rightarrow> (False, sdf)
               | Some p1 \<Rightarrow>
                  (case Value_SetFromString env p1 [] of
                     None \<Rightarrow> (False, updValue (\<lambda>v. p1) sdf)
                   | Some p2 \<Rightarrow> (True, updValue (\<lambda>v. p2) sdf)))))"

text \<open>The child descriptions of required cardinality \<open>1\<close> or \<open>+\<close> of which the element has
  no child, and the element that \<^verbatim>\<open>AddElement\<close> makes for a child name, marked as not
  set in the file.\<close>

definition missingRequired :: "Element \<Rightarrow> Element list" where
  "missingRequired sdf =
     filter (\<lambda>d. (GetRequired d = ''1'' \<or> GetRequired d = ''+'') \<and> \<not> HasElement sdf (GetName d))
       (elementDescriptions sdf)"

definition defaultElement :: "Element \<Rightarrow> string \<Rightarrow> Element" where
  "defaultElement sdf n =
     SetExplicitlySetInFile False (cloneWithRequired (the (GetElementDescription sdf n)))"

text \<open>The last loop of \<^verbatim>\<open>readXml\<close>, over the child descriptions: a required child
  that the element does not have is an error on a joint whose type is not \<^verbatim>\<open>ball\<close>,
  and is added with \<^verbatim>\<open>AddElement\<close> otherwise.\<close>

fun checkRequiredElements_loop ::
  "Element list \<Rightarrow> Element \<Rightarrow> Errors \<Rightarrow> (bool \<times> Element \<times> Errors) option" where
  "checkRequiredElements_loop [] sdf errors = Some (True, sdf, errors)"
| "checkRequiredElements_loop (elemDesc # others) sdf errors =
     (if (GetRequired elemDesc = ''1'' \<or> GetRequired elemDesc = ''+'')
         \<and> \<not> HasElement sdf (GetName elemDesc) then
        (if GetName sdf = ''joint'' \<and> fst (Get asString [] sdf ''type'' []) \<noteq> ''ball'' then
           Some (False, sdf, errors @ [Error ELEMENT_MISSING
             (''XML Missing required element['' @ GetName elemDesc
                @ ''], child of element['' @ GetName sdf @ '']'')])
         else
           (case AddElement sdf (GetName elemDesc) of
              None \<Rightarrow> None
            | Some sdf1 \<Rightarrow>
                checkRequiredElements_loop others
                  (setLastChild (SetExplicitlySetInFile False (last (elements sdf1))) sdf1)
                  errors))
      else checkRequiredElements_loop others sdf errors)"

definition checkRequiredElements :: "Element \<Rightarrow> Errors \<Rightarrow> (bool \<times> Element \<times> Errors) option" where
  "checkRequiredElements sdf errors =
     checkRequiredElements_loop (elementDescriptions sdf) sdf errors"

text \<open>The condition under which a missing required child is an error, and the element
  after a default child of a name was added.\<close>

definition nonBallJoint :: "Element \<Rightarrow> bool" where
  "nonBallJoint sdf = (GetName sdf = ''joint'' \<and> fst (Get asString [] sdf ''type'' []) \<noteq> ''ball'')"

definition addDefault :: "Element \<Rightarrow> string \<Rightarrow> Element" where
  "addDefault sdf n = setElements (elements sdf @ [defaultElement sdf n]) sdf"

text \<open>The result of a read: the return value, the element and the error list after the
  call; \<open>None\<close> is a null pointer dereference.\<close>

type_synonym ReadResult = "(bool \<times> Element \<times> Errors) option"

text \<open>The start of \<^verbatim>\<open>readXml\<close>: the error for a deprecated element, under the
  policy for deprecated elements; and, for an element with a reference schema, the
  element after it was replaced by that schema.\<close>

definition checkDeprecated :: "ParserConfig \<Rightarrow> Element \<Rightarrow> Errors \<Rightarrow> Errors" where
  "checkDeprecated config sdf errors =
     (if GetRequired sdf = ''-1''
      then enforceConfigurablePolicyCondition (DeprecatedElementsPolicy config)
             (Error ELEMENT_DEPRECATED (''SDF Element['' @ GetName sdf @ ''] is deprecated''))
             errors
      else errors)"

definition withReferenceSDF :: "Collaborators \<Rightarrow> Element \<Rightarrow> Element" where
  "withReferenceSDF env sdf =
     (if ReferenceSDF sdf \<noteq> [] then resolveReferenceSDF env sdf else sdf)"

text \<open>\<^verbatim>\<open>readXml\<close> on a null XML element.\<close>

definition readXml_null :: "ParserConfig \<Rightarrow> Element \<Rightarrow> Errors \<Rightarrow> ReadResult" where
  "readXml_null config sdf errors =
     (if GetRequired sdf = ''1'' \<or> GetRequired sdf = ''+''
      then Some (False, sdf, checkDeprecated config sdf errors @ [Error ELEMENT_MISSING
             (''SDF Element<'' @ GetName sdf @ ''> is missing'')])
      else Some (True, sdf, checkDeprecated config sdf errors))"

text \<open>\<^verbatim>\<open>readXml\<close> on an XML element; \<open>readChildElements\<close> is the loop over the
  child elements.\<close>

definition readXml_element ::
  "Collaborators \<Rightarrow> ParserConfig \<Rightarrow> XMLElement \<Rightarrow> Element \<Rightarrow> Errors
     \<Rightarrow> (Element \<Rightarrow> Errors \<Rightarrow> ReadResult) \<Rightarrow> ReadResult" where
  "readXml_element env config xml sdf errors readChildElements =
     (case readAttributes env config xml (withReferenceSDF env sdf)
             (checkDeprecated config sdf errors) of
        (False, sdf2, errors2) \<Rightarrow> Some (False, sdf2, errors2)
      | (True, sdf2, errors2) \<Rightarrow>
         (case readValue env xml sdf2 of
            (False, sdf3) \<Rightarrow> Some (False, sdf3, errors2)
          | (True, sdf3) \<Rightarrow>
              if GetCopyChildren sdf3 then
                map_option (\<lambda>s. (True, s, errors2))
                  (copyChildren env sdf3 (XChildren xml) False)
              else
                (case readChildElements sdf3 errors2 of
                   None \<Rightarrow> None
                 | Some (False, sdf4, errors4) \<Rightarrow> Some (False, sdf4, errors4)
                 | Some (True, sdf4, errors4) \<Rightarrow>
                    (case copyChildren env sdf4 (XChildren xml) True of
                       None \<Rightarrow> None
                     | Some sdf5 \<Rightarrow> checkRequiredElements sdf5 errors4))))"

text \<open>The include block of the loop body; \<open>validateInclude\<close> is the call of
  \<^verbatim>\<open>validateIncludeElement\<close> and \<open>readPluginElements\<close> the loop over the plugins of
  the include.\<close>

definition readInclude ::
  "Collaborators \<Rightarrow> ParserConfig \<Rightarrow> XMLElement \<Rightarrow> Element \<Rightarrow> Errors
     \<Rightarrow> (Errors \<Rightarrow> Errors option) \<Rightarrow> (Element \<Rightarrow> Errors \<Rightarrow> ReadResult)
     \<Rightarrow> Element Step option" where
  "readInclude env config elemXml sdf errors validateInclude readPluginElements =
     (case validateInclude errors of
        None \<Rightarrow> None
      | Some errors1 \<Rightarrow>
         (case includeHead env config elemXml errors1 of
            None \<Rightarrow> None
          | Some (Continue errors2) \<Rightarrow> Some (Continue errors2)
          | Some (ReturnFalse errors2) \<Rightarrow> Some (ReturnFalse errors2)
          | Some (FallThrough errors2) \<Rightarrow> Some (FallThrough errors2)
          | Some (Proceed (includeRoot, topLevelElementType) errors2) \<Rightarrow>
             (if topLevelElementType = ''model'' \<or> topLevelElementType = ''actor'' then
                (case GetElementImpl includeRoot topLevelElementType of
                   None \<Rightarrow> None
                 | Some topLevelElem \<Rightarrow>
                    (case readPluginElements topLevelElem errors2 of
                       None \<Rightarrow> None
                     | Some (False, top1, errors3) \<Rightarrow> Some (ReturnFalse errors3)
                     | Some (True, top1, errors3) \<Rightarrow>
                         map_option (\<lambda>(sdf1, errors4). Proceed sdf1 errors4)
                           (includeTail env elemXml sdf
                              (updElementImpl topLevelElementType (\<lambda>c. top1) includeRoot)
                              errors3)))
              else
                map_option (\<lambda>(sdf1, errors4). Proceed sdf1 errors4)
                  (includeTail env elemXml sdf includeRoot errors2))))"

text \<open>The body of the loop over the child elements; \<open>readElement\<close> is the recursive
  call of \<^verbatim>\<open>readXml\<close> on the child with the clone of a description.\<close>

definition readChild ::
  "Collaborators \<Rightarrow> ParserConfig \<Rightarrow> string \<Rightarrow> XMLElement \<Rightarrow> Element \<Rightarrow> Errors
     \<Rightarrow> (Errors \<Rightarrow> Errors option) \<Rightarrow> (Element \<Rightarrow> Errors \<Rightarrow> ReadResult)
     \<Rightarrow> (Element \<Rightarrow> Errors \<Rightarrow> ReadResult) \<Rightarrow> Element Step option" where
  "readChild env config xmlValue elemXml sdf errors validateInclude readPluginElements
     readElement =
     (case (if XValue elemXml = ''include''
            then readInclude env config elemXml sdf errors validateInclude readPluginElements
            else Some (FallThrough errors)) of
        None \<Rightarrow> None
      | Some (Proceed sdf1 errors1) \<Rightarrow> Some (Proceed sdf1 errors1)
      | Some (Continue errors1) \<Rightarrow> Some (Continue errors1)
      | Some (ReturnFalse errors1) \<Rightarrow> Some (ReturnFalse errors1)
      | Some (FallThrough errors1) \<Rightarrow>
         (case find (\<lambda>d. GetName d = XValue elemXml) (elementDescriptions sdf) of
            Some elemDesc \<Rightarrow>
              (case readElement elemDesc errors1 of
                 None \<Rightarrow> None
               | Some (True, element, errors2) \<Rightarrow>
                   Some (Proceed (InsertElement element sdf) errors2)
               | Some (False, element, errors2) \<Rightarrow>
                   Some (ReturnFalse (errors2 @ [Error ELEMENT_INVALID
                     (''Error reading element <'' @ XValue elemXml @ ''>'')])))
          | None \<Rightarrow>
              Some (Proceed sdf
                (if CHR '':'' \<notin> set (XValue elemXml)
                 then enforceConfigurablePolicyCondition (UnrecognizedElementsPolicy config)
                        (Error ELEMENT_INCORRECT_TYPE
                           (''XML Element['' @ XValue elemXml @ ''], child of element[''
                              @ xmlValue @ ''], not defined in SDF. Copying['' @ XValue elemXml
                              @ ''] as children of ['' @ xmlValue @ ''].''))
                        errors1
                 else errors1))))"

lemma size_XChildren_bound:
  "3 * size_list size (XChildren x) < 3 + (3 * size x + 3 * n)"
  by (cases x) simp

text \<open>\<^verbatim>\<open>readXml\<close>, the loop over the child elements, \<^verbatim>\<open>validateIncludeElement\<close>
  (the loop over the child descriptions) and the loop over the plugins of an include.
  The source of the document is only written into the location of errors and is not a
  parameter here.\<close>

function readXml ::
  "Collaborators \<Rightarrow> ParserConfig \<Rightarrow> XMLElement option \<Rightarrow> Element \<Rightarrow> Errors \<Rightarrow> ReadResult"
and readChildren ::
  "Collaborators \<Rightarrow> ParserConfig \<Rightarrow> string \<Rightarrow> XMLElement list \<Rightarrow> Element \<Rightarrow> Errors
     \<Rightarrow> ReadResult"
and validateIncludeElement ::
  "Collaborators \<Rightarrow> ParserConfig \<Rightarrow> XMLElement \<Rightarrow> Element list \<Rightarrow> Errors \<Rightarrow> Errors option"
and readPlugins ::
  "Collaborators \<Rightarrow> ParserConfig \<Rightarrow> XMLElement list \<Rightarrow> Element \<Rightarrow> Errors \<Rightarrow> ReadResult"
where
  "readXml env config None sdf errors = readXml_null config sdf errors"
| "readXml env config (Some (XMLElement tag attrs text children)) sdf errors =
     readXml_element env config (XMLElement tag attrs text children) sdf errors
       (\<lambda>sdf3 errors2. readChildren env config tag children sdf3 errors2)"
| "readChildren env config xmlValue [] sdf errors = Some (True, sdf, errors)"
| "readChildren env config xmlValue (elemXml # others) sdf errors =
     (case readChild env config xmlValue elemXml sdf errors
             (\<lambda>errors1. validateIncludeElement env config elemXml (elementDescriptions sdf)
                           errors1)
             (\<lambda>topLevelElem errors2. readPlugins env config (XChildren elemXml) topLevelElem
                           errors2)
             (\<lambda>elemDesc errors1. readXml env config (Some elemXml) elemDesc errors1) of
        None \<Rightarrow> None
      | Some (Proceed sdf1 errors1) \<Rightarrow> readChildren env config xmlValue others sdf1 errors1
      | Some (ReturnFalse errors1) \<Rightarrow> Some (False, sdf, errors1)
      | Some (Continue errors1) \<Rightarrow> readChildren env config xmlValue others sdf errors1
      | Some (FallThrough errors1) \<Rightarrow> readChildren env config xmlValue others sdf errors1)"
| "validateIncludeElement env config xml [] errors = Some errors"
| "validateIncludeElement env config xml (elemDesc # others) errors =
     (if GetName elemDesc = XValue xml then
        (case readXml env config (Some xml) elemDesc errors of
           None \<Rightarrow> None
         | Some (True, element, errors1) \<Rightarrow>
             validateIncludeElement env config xml others errors1
         | Some (False, element, errors1) \<Rightarrow>
             validateIncludeElement env config xml others
               (errors1 @ [Error ELEMENT_INVALID (''Error reading element <'' @ XValue xml @ ''>'')]))
      else validateIncludeElement env config xml others errors)"
| "readPlugins env config [] topLevelElem errors = Some (True, topLevelElem, errors)"
| "readPlugins env config (childElemXml # others) topLevelElem errors =
     (if XValue childElemXml = ''plugin'' then
        (case AddElement topLevelElem ''plugin'' of
           None \<Rightarrow> None
         | Some top1 \<Rightarrow>
            (case readXml env config (Some childElemXml) (last (elements top1)) errors of
               None \<Rightarrow> None
             | Some (True, pluginElem, errors1) \<Rightarrow>
                 readPlugins env config others (setLastChild pluginElem top1) errors1
             | Some (False, pluginElem, errors1) \<Rightarrow>
                 Some (False, setLastChild pluginElem top1,
                       errors1 @ [Error ELEMENT_INVALID ''Error reading plugin element''])))
      else readPlugins env config others topLevelElem errors)"
  by pat_completeness auto


termination
  by (relation "inv_image (measure id <*lex*> measure id)
       (\<lambda>a. case a of
          Inl (Inl (env, config, xo, sdf, errors)) \<Rightarrow> (3 * size_option size xo, 0::nat)
        | Inl (Inr (env, config, v, xs, sdf, errors)) \<Rightarrow> (3 * size_list size xs + 2, 0)
        | Inr (Inl (env, config, x, ds, errors)) \<Rightarrow> (3 * Suc (size x), Suc (length ds))
        | Inr (Inr (env, config, xs, te, errors)) \<Rightarrow> (3 * size_list size xs + 2, 0))")
     (auto, (insert size_XChildren_bound, fastforce)+)

section \<open>parser.cc: readDoc and the checks on the whole document\<close>

definition shouldValidateElement :: "Element \<Rightarrow> bool" where
  "shouldValidateElement elem =
     (if GetName elem = ''plugin'' then False
      else if CHR '':'' \<in> set (GetName elem) then False
      else True)"

text \<open>\<^verbatim>\<open>recursiveSiblingNoDoubleColonInNames\<close>; \<^verbatim>\<open>find("::") != npos\<close> is
  \<^const>\<open>sublist\<close>.\<close>

fun recursiveSiblingNoDoubleColonInNames :: "Element \<Rightarrow> bool" where
  "recursiveSiblingNoDoubleColonInNames (Element i es ds inc) =
     (if \<not> shouldValidateElement (Element i es ds inc) then True
      else
        fold (\<lambda>child result. recursiveSiblingNoDoubleColonInNames child \<and> result) es
          (\<not> (HasAttribute (Element i es ds inc) ''name''
               \<and> sublist ''::'' (fst (Get asString [] (Element i es ds inc) ''name'' [])))))"

text \<open>\<^verbatim>\<open>checkXmlFromRoot\<close>: the return value and the error list after the call.\<close>

definition checkXmlFromRoot :: "XMLElement option \<Rightarrow> string \<Rightarrow> Errors \<Rightarrow> bool \<times> Errors" where
  "checkXmlFromRoot xmlRoot source errors =
     (case xmlRoot of
        None \<Rightarrow> (True, errors)
      | Some r \<Rightarrow>
         (case FirstChildElement r ''model'' of
            None \<Rightarrow> (True, errors)
          | Some topLevelElem \<Rightarrow>
             (case FirstChildElement topLevelElem ''pose'' of
                None \<Rightarrow> (True, errors)
              | Some topLevelPose \<Rightarrow>
                 (case Attribute topLevelPose ''relative_to'' of
                    None \<Rightarrow> (True, errors)
                  | Some relativeToStr \<Rightarrow>
                      if relativeToStr \<noteq> [] then
                        (False, errors @ [Error ATTRIBUTE_INVALID
                           (''Attribute //pose[@relative_to] of top level model must be left empty, found //pose[@relative_to='' @ [CHR 0x27] @ relativeToStr @ [CHR 0x27] @ ''].'')])
                      else (True, errors)))))"

text \<open>
  Modelled from the spec: \<^verbatim>\<open>SDFImpl.cc\<close> is not among the sources.  An \<^verbatim>\<open>SDF\<close>
  object owns the root element, and carries a file path and an original version;
  \<^verbatim>\<open>SDF::SetFilePath\<close> sets the path of the object and of its root element.
\<close>

record SDFImpl =
  sdfRoot :: "Element option"
  sdfPath :: string
  sdfOriginalVersion :: string

text \<open>The root element of \<^verbatim>\<open>readDoc\<close> before the XML is read: the file path is
  set unless the source is a string, and the original version is set from the version
  attribute if it was empty.  The document before it is read: converted when conversion
  is asked for and the version is not the current one.\<close>

definition preparedRoot :: "Collaborators \<Rightarrow> string \<Rightarrow> string \<Rightarrow> Element \<Rightarrow> Element" where
  "preparedRoot env source version r =
     (let r1 = (if source \<noteq> kSdfStringSource env then SetFilePath source r else r)
      in if OriginalVersion r1 = [] then SetOriginalVersion version r1 else r1)"

definition preparedSDF :: "Collaborators \<Rightarrow> string \<Rightarrow> string \<Rightarrow> SDFImpl \<Rightarrow> SDFImpl" where
  "preparedSDF env source version sdf =
     (let sdf1 = (if source \<noteq> kSdfStringSource env then sdf\<lparr>sdfPath := source\<rparr> else sdf)
      in if sdfOriginalVersion sdf1 = [] then sdf1\<lparr>sdfOriginalVersion := version\<rparr> else sdf1)"

definition convertedDoc :: "Collaborators \<Rightarrow> bool \<Rightarrow> string \<Rightarrow> XMLDocument \<Rightarrow> XMLDocument" where
  "convertedDoc env convert version xmlDoc =
     (if convert \<and> version \<noteq> SDF_Version env then Converter_Convert env xmlDoc else xmlDoc)"

text \<open>\<^verbatim>\<open>readDoc\<close> (the overload on an \<^verbatim>\<open>SDFPtr\<close>): the return value, the
  \<^verbatim>\<open>SDF\<close> object and the error list after the call.\<close>

definition readDoc ::
  "Collaborators \<Rightarrow> ParserConfig \<Rightarrow> XMLDocument option \<Rightarrow> SDFImpl option \<Rightarrow> string \<Rightarrow> bool
     \<Rightarrow> Errors \<Rightarrow> (bool \<times> SDFImpl option \<times> Errors) option" where
  "readDoc env config xmlDoc sdf source convert errors =
     (case xmlDoc of
        None \<Rightarrow> Some (False, sdf, errors)
      | Some doc \<Rightarrow>
         (case Doc_FirstChildElement doc ''sdf'' of
            None \<Rightarrow> Some (False, sdf, errors)
          | Some sdfNode \<Rightarrow>
             (case sdf of
                None \<Rightarrow> Some (False, sdf, errors)
              | Some s \<Rightarrow>
                 (case sdfRoot s of
                    None \<Rightarrow> Some (False, sdf, errors)
                  | Some r \<Rightarrow>
                     (case Attribute sdfNode ''version'' of
                        None \<Rightarrow>
                          Some (False,
                            Some (if source \<noteq> kSdfStringSource env
                                  then s\<lparr>sdfPath := source, sdfRoot := Some (SetFilePath source r)\<rparr>
                                  else s),
                            errors)
                      | Some version \<Rightarrow>
                         (let s1 = preparedSDF env source version s;
                              r1 = preparedRoot env source version r;
                              elemXml = Doc_FirstChildElement
                                          (convertedDoc env convert version doc) (GetName r1)
                          in case checkXmlFromRoot elemXml source errors of
                               (False, errors1) \<Rightarrow>
                                 Some (False, Some (s1\<lparr>sdfRoot := Some r1\<rparr>),
                                   errors1 @ [Error ELEMENT_INVALID
                                     (''Errors were found when checking the XML of element<''
                                        @ GetName r1 @ ''>.'')])
                             | (True, errors1) \<Rightarrow>
                                (case readXml env config elemXml r1 errors1 of
                                   None \<Rightarrow> None
                                 | Some (False, r2, errors2) \<Rightarrow>
                                     Some (False, Some (s1\<lparr>sdfRoot := Some r2\<rparr>),
                                       errors2 @ [Error ELEMENT_INVALID
                                         (''Error reading element <'' @ GetName r2 @ ''>'')])
                                 | Some (True, r2, errors2) \<Rightarrow>
                                     if versionAtLeast_1_8 env (OriginalVersion r2)
                                        \<and> \<not> recursiveSiblingNoDoubleColonInNames r2
                                     then
                                       Some (False, Some (s1\<lparr>sdfRoot := Some r2\<rparr>),
                                         errors2 @ [Error RESERVED_NAME
                                           (''Delimiter '' @ [CHR 0x27] @ ''::'' @ [CHR 0x27]
                                              @ '' found in attribute names of element <''
                                              @ GetName r2
                                              @ ''>, which is not allowed in SDFormat >= 1.8'')])
                                     else Some (True, Some (s1\<lparr>sdfRoot := Some r2\<rparr>), errors2))))))))"

text \<open>The elements that \<^verbatim>\<open>recursiveSiblingNoDoubleColonInNames\<close> looks at: the
  element itself and, recursively, its children, unless the element is a plugin or has a
  colon in its name; and what it looks for: a \<^verbatim>\<open>name\<close> attribute whose value contains
  the delimiter.\<close>

fun validatedElements :: "Element \<Rightarrow> Element list" where
  "validatedElements (Element i es ds inc) =
     (if shouldValidateElement (Element i es ds inc)
      then Element i es ds inc # concat (map validatedElements es) else [])"

definition hasDoubleColonName :: "Element \<Rightarrow> bool" where
  "hasDoubleColonName e =
     (case GetAttribute e ''name'' of None \<Rightarrow> False | Some p \<Rightarrow> sublist ''::'' (val p))"

section \<open>Link.cc: Load and ToElement\<close>

text \<open>
  Modelled from the spec: \<^verbatim>\<open>Utils.cc\<close> (\<^verbatim>\<open>loadName\<close>, \<^verbatim>\<open>loadPose\<close>) is not among
  the sources.  The spec: a link carries a name, a raw pose and the frame the pose is
  relative to; \<^verbatim>\<open>Get<T>(name, default)\<close> returns the value and whether it was found.
  \<^verbatim>\<open>loadName\<close> reads \<^verbatim>\<open>name\<close>; \<^verbatim>\<open>loadPose\<close> reads the \<^verbatim>\<open>pose\<close> child (or the
  element itself when it is a pose): its \<^verbatim>\<open>relative_to\<close> and its value, and sets
  the outputs only when the value was found.
\<close>

definition loadName :: "Element \<Rightarrow> bool \<times> string" where
  "loadName sdf = (snd (Get asString [] sdf ''name'' []), fst (Get asString [] sdf ''name'' []))"

definition loadPose :: "Element \<Rightarrow> Pose3d \<Rightarrow> string \<Rightarrow> bool \<times> Pose3d \<times> string" where
  "loadPose sdf pose0 frame0 =
     (case (if GetName sdf \<noteq> ''pose'' then GetElementImpl sdf ''pose'' else Some sdf) of
        None \<Rightarrow> (False, pose0, frame0)
      | Some p \<Rightarrow>
          if snd (Get asPose Pose3d_Zero p [] Pose3d_Zero)
          then (True, fst (Get asPose Pose3d_Zero p [] Pose3d_Zero),
                fst (Get asString [] p ''relative_to'' []))
          else (False, pose0, frame0))"

text \<open>
  What else \<^verbatim>\<open>Link.cc\<close> calls and the sources do not hold, as parameters: the test
  for a reserved name; \<^verbatim>\<open>loadUniqueRepeated\<close> for the children of a name (its errors
  and the objects it appends); the validity of a mass matrix
  (\<^verbatim>\<open>ignition::math::MassMatrix3\<close>); the element that \<^verbatim>\<open>initFile("link.sdf")\<close>
  builds; and \<^verbatim>\<open>ToElement\<close> of the child classes, by the name of the child element.
\<close>

record 'x LinkCollaborators =
  isReservedName :: "string \<Rightarrow> bool"
  loadUniqueRepeated :: "Element \<Rightarrow> string \<Rightarrow> Errors \<times> 'x Entity list"
  MassMatrix3d_IsValid :: "MassMatrix3d \<Rightarrow> bool"
  linkSdf :: Element
  Entity_ToElement :: "string \<Rightarrow> 'x Entity \<Rightarrow> Element"

text \<open>The inertial data that \<^verbatim>\<open>Link::Load\<close> reads: the mass matrix it builds and the
  pose of the inertial frame.\<close>

definition loadInertiaMoments :: "Element \<Rightarrow> Vector3d \<times> Vector3d" where
  "loadInertiaMoments inertialElem =
     (case GetElementImpl inertialElem ''inertia'' of
        None \<Rightarrow> (Vector3d_One, Vector3d_Zero)
      | Some inertiaElem \<Rightarrow>
          (Vector3d (fst (Get asDouble 0 inertiaElem ''ixx'' 1))
                    (fst (Get asDouble 0 inertiaElem ''iyy'' 1))
                    (fst (Get asDouble 0 inertiaElem ''izz'' 1)),
           Vector3d (fst (Get asDouble 0 inertiaElem ''ixy'' 0))
                    (fst (Get asDouble 0 inertiaElem ''ixz'' 0))
                    (fst (Get asDouble 0 inertiaElem ''iyz'' 0))))"

definition loadInertial :: "Element \<Rightarrow> Inertiald" where
  "loadInertial sdf =
     (case GetElementImpl sdf ''inertial'' of
        None \<Rightarrow>
          \<lparr> MassMatrix = \<lparr> Mass = 1, DiagonalMoments = Vector3d_One,
                           OffDiagonalMoments = Vector3d_Zero \<rparr>,
            InertialPose = Pose3d_Zero \<rparr>
      | Some inertialElem \<Rightarrow>
          \<lparr> MassMatrix = \<lparr> Mass = fst (Get asDouble 0 inertialElem ''mass'' 1),
                           DiagonalMoments = fst (loadInertiaMoments inertialElem),
                           OffDiagonalMoments = snd (loadInertiaMoments inertialElem) \<rparr>,
            InertialPose =
              (case GetElementImpl inertialElem ''pose'' of
                 None \<Rightarrow> Pose3d_Zero
               | Some poseElem \<Rightarrow> fst (snd (loadPose poseElem Pose3d_Zero []))) \<rparr>)"

text \<open>\<^verbatim>\<open>Link::Load\<close> on a link object: the errors it returns and the object after the
  call.\<close>

definition Link_Load :: "'x LinkCollaborators \<Rightarrow> Element \<Rightarrow> 'x Link \<Rightarrow> Errors \<times> 'x Link" where
  "Link_Load env sdf this =
     (if GetName sdf \<noteq> ''link'' then
        ([Error ELEMENT_INCORRECT_TYPE
            ''Attempting to load a Link, but the provided SDF element is not a <link>.''], this)
      else
        ((if \<not> fst (loadName sdf)
          then [Error ATTRIBUTE_MISSING ''A link name is required, but the name is not set.'']
          else [])
         @ (if isReservedName env (snd (loadName sdf))
            then [Error RESERVED_NAME
                    (''The supplied link name ['' @ snd (loadName sdf) @ ''] is reserved.'')]
            else [])
         @ fst (loadUniqueRepeated env sdf ''visual'')
         @ fst (loadUniqueRepeated env sdf ''collision'')
         @ fst (loadUniqueRepeated env sdf ''light'')
         @ fst (loadUniqueRepeated env sdf ''sensor'')
         @ fst (loadUniqueRepeated env sdf ''particle_emitter'')
         @ (if \<not> MassMatrix3d_IsValid env (MassMatrix (loadInertial sdf))
            then [Error LINK_INERTIA_INVALID
                    (''A link named '' @ snd (loadName sdf) @ '' has invalid inertia.'')]
            else []),
         this\<lparr> link_name := snd (loadName sdf),
               pose := fst (snd (loadPose sdf (pose this) (poseRelativeTo this))),
               poseRelativeTo := snd (snd (loadPose sdf (pose this) (poseRelativeTo this))),
               visuals := visuals this @ snd (loadUniqueRepeated env sdf ''visual''),
               collisions := collisions this @ snd (loadUniqueRepeated env sdf ''collision''),
               lights := lights this @ snd (loadUniqueRepeated env sdf ''light''),
               sensors := sensors this @ snd (loadUniqueRepeated env sdf ''sensor''),
               emitters := emitters this
                             @ snd (loadUniqueRepeated env sdf ''particle_emitter''),
               inertial := loadInertial sdf,
               enableWind := fst (Get asBool False sdf ''enable_wind'' (enableWind this)) \<rparr>))"

text \<open>\<^verbatim>\<open>elem->GetElement(name)->Set(v)\<close>: a null pointer dereference when the element
  has neither a child nor a child description of that name.\<close>

definition setElementValue :: "string \<Rightarrow> ParamValue \<Rightarrow> Element \<Rightarrow> Element option" where
  "setElementValue n v = withElement n (\<lambda>c. Some (Element_Set v c)) None"

text \<open>\<^verbatim>\<open>Link::ToElement\<close>.\<close>

definition Link_ToElement :: "'x LinkCollaborators \<Rightarrow> 'x Link \<Rightarrow> Element option" where
  "Link_ToElement env this =
     Option.bind (setAttribute ''name'' (link_name this) (linkSdf env))
       (\<lambda>e1. Option.bind
          (withElement ''pose''
             (\<lambda>poseElem.
                map_option (Element_Set (PPose (pose this)))
                  (if poseRelativeTo this \<noteq> []
                   then setAttribute ''relative_to'' (poseRelativeTo this) poseElem
                   else Some poseElem))
             None e1)
       (\<lambda>e2. Option.bind
          (withElement ''inertial''
             (\<lambda>inertialElem.
                Option.bind (setElementValue ''pose'' (PPose (InertialPose (inertial this)))
                               inertialElem)
                  (\<lambda>i1. Option.bind
                     (setElementValue ''mass'' (PDouble (Mass (MassMatrix (inertial this)))) i1)
                  (\<lambda>i2. withElement ''inertia''
                     (\<lambda>inertiaElem.
                        case (DiagonalMoments (MassMatrix (inertial this)),
                              OffDiagonalMoments (MassMatrix (inertial this))) of
                          (Vector3d ixx iyy izz, Vector3d ixy ixz iyz) \<Rightarrow>
                            Option.bind (setElementValue ''ixx'' (PDouble ixx) inertiaElem)
                              (\<lambda>m1. Option.bind (setElementValue ''ixy'' (PDouble ixy) m1)
                              (\<lambda>m2. Option.bind (setElementValue ''ixz'' (PDouble ixz) m2)
                              (\<lambda>m3. Option.bind (setElementValue ''iyy'' (PDouble iyy) m3)
                              (\<lambda>m4. Option.bind (setElementValue ''iyz'' (PDouble iyz) m4)
                              (\<lambda>m5. setElementValue ''izz'' (PDouble izz) m5))))))
                     None i2)))
             None e2)
       (\<lambda>e3. map_option
          (\<lambda>e4. fold InsertElement
                   (map (Entity_ToElement env ''collision'') (collisions this)
                    @ map (Entity_ToElement env ''light'') (lights this)
                    @ map (Entity_ToElement env ''particle_emitter'') (emitters this)
                    @ map (Entity_ToElement env ''sensor'') (sensors this)
                    @ map (Entity_ToElement env ''visual'') (visuals this)) e4)
          (setElementValue ''enable_wind'' (PBool (enableWind this)) e3))))"

section \<open>Material.cc: Load and ToElement\<close>

datatype ShaderType = PIXEL | VERTEX | NORMAL_MAP_OBJECTSPACE | NORMAL_MAP_TANGENTSPACE

datatype PbrWorkflowType = NONE | METAL | SPECULAR

datatype NormalMapSpace = TANGENT | OBJECT

text \<open>What \<^verbatim>\<open>Material::ToElement\<close> reads from a \<^verbatim>\<open>PbrWorkflow\<close>, and a \<^verbatim>\<open>Pbr\<close> as
  its \<^verbatim>\<open>Workflow(type)\<close>: the workflow of a type, or null (\<^verbatim>\<open>Pbr.cc\<close> is not among
  the sources).\<close>

record PbrWorkflow =
  wfType :: PbrWorkflowType
  wfAlbedoMap :: string
  wfNormalMap :: string
  wfNormalMapType :: NormalMapSpace
  wfEnvironmentMap :: string
  wfAmbientOcclusionMap :: string
  wfRoughnessMap :: string
  wfMetalnessMap :: string
  wfEmissiveMap :: string
  wfLightMap :: string
  wfLightMapTexCoordSet :: nat
  wfRoughness :: real
  wfMetalness :: real
  wfSpecularMap :: string
  wfGlossinessMap :: string
  wfGlossiness :: real

type_synonym Pbr = "PbrWorkflowType \<Rightarrow> PbrWorkflow option"

text \<open>\<^verbatim>\<open>sdf::Material::Implementation\<close>, without the element pointer.\<close>

record Material =
  scriptUri :: string
  scriptName :: string
  shader :: ShaderType
  normalMap :: string
  lighting :: bool
  doubleSided :: bool
  ambient :: Color
  diffuse :: Color
  specular :: Color
  emissive :: Color
  renderOrder :: real
  pbr :: "Pbr option"
  filePath :: string

definition Material_new :: Material where
  "Material_new = \<lparr> scriptUri = [], scriptName = [], shader = PIXEL, normalMap = [],
     lighting = True, doubleSided = False, ambient = Color 0 0 0 1, diffuse = Color 0 0 0 1,
     specular = Color 0 0 0 1, emissive = Color 0 0 0 1, renderOrder = 0, pbr = None,
     filePath = [] \<rparr>"

text \<open>The parameters: \<^verbatim>\<open>Pbr::Load\<close> (its errors and the object), the element that
  \<^verbatim>\<open>initFile("material.sdf")\<close> builds, and the text of an unsigned number in an
  attribute.\<close>

record MaterialCollaborators =
  Pbr_Load :: "Element \<Rightarrow> Errors \<times> Pbr"
  materialSdf :: Element
  unsignedToString :: "nat \<Rightarrow> string"

text \<open>A string read from the schema default \<^verbatim>\<open>__default__\<close> is the empty string.\<close>

definition notDefault :: "string \<Rightarrow> string" where
  "notDefault s = (if s = ''__default__'' then [] else s)"

text \<open>The script and shader blocks of \<^verbatim>\<open>Material::Load\<close>: the errors they add and the
  object after them.\<close>

definition loadScript :: "Element \<Rightarrow> Material \<Rightarrow> Errors \<times> Material" where
  "loadScript sdf this =
     (case GetElementImpl sdf ''script'' of
        None \<Rightarrow> ([], this)
      | Some elem \<Rightarrow>
          ((if \<not> snd (Get asString [] elem ''uri'' [])
               \<or> notDefault (fst (Get asString [] elem ''uri'' [])) = []
            then [Error ELEMENT_INVALID
              ''A <script> element is missing a child <uri> element, or the <uri> element is empty.'']
            else [])
           @ (if \<not> snd (Get asString [] elem ''name'' [])
                 \<or> notDefault (fst (Get asString [] elem ''name'' [])) = []
              then [Error ELEMENT_MISSING
                ''A <script> element is missing a child <name> element, or the <name> element is empty.'']
              else []),
           this\<lparr> scriptUri := notDefault (fst (Get asString [] elem ''uri'' [])),
                 scriptName := notDefault (fst (Get asString [] elem ''name'' [])) \<rparr>))"

definition shaderOfString :: "string \<Rightarrow> ShaderType option" where
  "shaderOfString s =
     (if s = ''pixel'' then Some PIXEL
      else if s = ''vertex'' then Some VERTEX
      else if s = ''normal_map_objectspace'' then Some NORMAL_MAP_OBJECTSPACE
      else if s = ''normal_map_object_space'' then Some NORMAL_MAP_OBJECTSPACE
      else if s = ''normal_map_tangentspace'' then Some NORMAL_MAP_TANGENTSPACE
      else if s = ''normal_map_tangent_space'' then Some NORMAL_MAP_TANGENTSPACE
      else None)"

definition loadShader :: "Element \<Rightarrow> Material \<Rightarrow> Errors \<times> Material" where
  "loadShader sdf this =
     (case GetElementImpl sdf ''shader'' of
        None \<Rightarrow> ([], this)
      | Some elem \<Rightarrow>
         (let typeStr = fst (Get asString [] elem ''type'' ''pixel'');
              shader1 = (case shaderOfString typeStr of None \<Rightarrow> shader this | Some sh \<Rightarrow> sh);
              normalMap1 = notDefault (fst (Get asString [] elem ''normal_map'' []))
          in ((case shaderOfString typeStr of
                 None \<Rightarrow> [Error ELEMENT_INVALID
                   (''The value['' @ typeStr @ ''] for a <shader><type> element is not supported'')]
               | Some sh \<Rightarrow> [])
              @ (if (shader1 = NORMAL_MAP_OBJECTSPACE \<or> shader1 = NORMAL_MAP_TANGENTSPACE)
                    \<and> normalMap1 = []
                 then [Error ELEMENT_MISSING
                   ''A normal map shader type has been specified, but a normal_map has not.'']
                 else []),
              this\<lparr> shader := shader1, normalMap := normalMap1 \<rparr>)))"

text \<open>\<^verbatim>\<open>Material::Load\<close> on a material object.\<close>

definition Material_Load ::
  "MaterialCollaborators \<Rightarrow> Element \<Rightarrow> Material \<Rightarrow> Errors \<times> Material" where
  "Material_Load env sdf this =
     (if GetName sdf \<noteq> ''material'' then
        ([Error ELEMENT_INCORRECT_TYPE
            ''Attempting to load a Material, but the provided SDF element is not a <material>.''],
         this\<lparr> filePath := FilePath sdf \<rparr>)
      else
        (let (errors1, this1) = loadScript sdf (this\<lparr> filePath := FilePath sdf \<rparr>);
             (errors2, this2) = loadShader sdf this1;
             this3 = this2\<lparr>
               renderOrder := fst (Get asFloat 0 sdf ''render_order'' (renderOrder this2)),
               ambient := fst (Get asColor (Color 0 0 0 1) sdf ''ambient'' (ambient this2)),
               diffuse := fst (Get asColor (Color 0 0 0 1) sdf ''diffuse'' (diffuse this2)),
               specular := fst (Get asColor (Color 0 0 0 1) sdf ''specular'' (specular this2)),
               emissive := fst (Get asColor (Color 0 0 0 1) sdf ''emissive'' (emissive this2)),
               lighting := fst (Get asBool False sdf ''lighting'' (lighting this2)),
               doubleSided := fst (Get asBool False sdf ''double_sided'' (doubleSided this2)) \<rparr>
         in case GetElementImpl sdf ''pbr'' of
              None \<Rightarrow> (errors1 @ errors2, this3)
            | Some pbrElem \<Rightarrow>
                (errors1 @ errors2 @ fst (Pbr_Load env pbrElem),
                 this3\<lparr> pbr := Some (snd (Pbr_Load env pbrElem)) \<rparr>)))"

text \<open>\<^verbatim>\<open>Material::ToElement\<close>: the normal map and the light map of a workflow, the
  \<^verbatim>\<open>metal\<close> and \<^verbatim>\<open>specular\<close> elements, and the whole.\<close>

definition writeNormalMap :: "PbrWorkflow \<Rightarrow> Element \<Rightarrow> Element option" where
  "writeNormalMap workflow normalElem =
     map_option (Element_Set (PString (wfNormalMap workflow)))
       (setAttribute ''type''
          (if wfNormalMapType workflow = TANGENT then ''tangent'' else ''object'') normalElem)"

definition writeLightMap ::
  "MaterialCollaborators \<Rightarrow> PbrWorkflow \<Rightarrow> Element \<Rightarrow> Element option" where
  "writeLightMap env workflow lightElem =
     map_option (Element_Set (PString (wfLightMap workflow)))
       (setAttribute ''uv_set'' (unsignedToString env (wfLightMapTexCoordSet workflow))
          lightElem)"

definition writeMetal ::
  "MaterialCollaborators \<Rightarrow> PbrWorkflow \<Rightarrow> Element \<Rightarrow> Element option" where
  "writeMetal env workflow metalElem =
     Option.bind (setElementValue ''albedo_map'' (PString (wfAlbedoMap workflow)) metalElem)
       (\<lambda>m1. Option.bind (setElementValue ''roughness_map'' (PString (wfRoughnessMap workflow)) m1)
       (\<lambda>m2. Option.bind (setElementValue ''roughness'' (PDouble (wfRoughness workflow)) m2)
       (\<lambda>m3. Option.bind (setElementValue ''metalness_map'' (PString (wfMetalnessMap workflow)) m3)
       (\<lambda>m4. Option.bind (setElementValue ''metalness'' (PDouble (wfMetalness workflow)) m4)
       (\<lambda>m5. Option.bind (setElementValue ''ambient_occlusion_map''
                              (PString (wfAmbientOcclusionMap workflow)) m5)
       (\<lambda>m6. Option.bind (withElement ''normal_map'' (writeNormalMap workflow) None m6)
       (\<lambda>m7. Option.bind (setElementValue ''emissive_map'' (PString (wfEmissiveMap workflow)) m7)
       (\<lambda>m8. withElement ''light_map'' (writeLightMap env workflow) None m8))))))))"

definition writeSpecular ::
  "MaterialCollaborators \<Rightarrow> PbrWorkflow \<Rightarrow> Element \<Rightarrow> Element option" where
  "writeSpecular env workflow specularElem =
     Option.bind (setElementValue ''albedo_map'' (PString (wfAlbedoMap workflow)) specularElem)
       (\<lambda>s1. Option.bind (setElementValue ''specular_map'' (PString (wfSpecularMap workflow)) s1)
       (\<lambda>s2. Option.bind (setElementValue ''environment_map''
                              (PString (wfEnvironmentMap workflow)) s2)
       (\<lambda>s3. Option.bind (setElementValue ''ambient_occlusion_map''
                              (PString (wfAmbientOcclusionMap workflow)) s3)
       (\<lambda>s4. Option.bind (setElementValue ''emissive_map'' (PString (wfEmissiveMap workflow)) s4)
       (\<lambda>s5. Option.bind (setElementValue ''glossiness_map''
                              (PString (wfGlossinessMap workflow)) s5)
       (\<lambda>s6. Option.bind (setElementValue ''glossiness'' (PDouble (wfGlossiness workflow)) s6)
       (\<lambda>s7. Option.bind (withElement ''normal_map'' (writeNormalMap workflow) None s7)
       (\<lambda>s8. withElement ''light_map'' (writeLightMap env workflow) None s8))))))))"

definition writePbr :: "MaterialCollaborators \<Rightarrow> Pbr \<Rightarrow> Element \<Rightarrow> Element option" where
  "writePbr env p pbrElem =
     Option.bind
       (case p METAL of
          None \<Rightarrow> Some pbrElem
        | Some workflow \<Rightarrow>
            if wfType workflow = METAL
            then withElement ''metal'' (writeMetal env workflow) None pbrElem
            else Some pbrElem)
       (\<lambda>p1. case p SPECULAR of
                None \<Rightarrow> Some p1
              | Some workflow \<Rightarrow>
                  if wfType workflow = SPECULAR
                  then withElement ''specular'' (writeSpecular env workflow) None p1
                  else Some p1)"

definition shaderTypeString :: "ShaderType \<Rightarrow> string" where
  "shaderTypeString sh =
     (case sh of
        PIXEL \<Rightarrow> ''pixel''
      | VERTEX \<Rightarrow> ''vertex''
      | NORMAL_MAP_OBJECTSPACE \<Rightarrow> ''normal_map_object_space''
      | NORMAL_MAP_TANGENTSPACE \<Rightarrow> ''normal_map_tangent_space'')"

definition writeShader :: "Material \<Rightarrow> Element \<Rightarrow> Element option" where
  "writeShader this shaderElem =
     Option.bind (setAttribute ''type'' (shaderTypeString (shader this)) shaderElem)
       (\<lambda>s1. if normalMap this \<noteq> []
              then setElementValue ''normal_map'' (PString (normalMap this)) s1
              else Some s1)"

definition writeScript :: "Material \<Rightarrow> Element \<Rightarrow> Element option" where
  "writeScript this scriptElem =
     Option.bind (setElementValue ''uri'' (PString (scriptUri this)) scriptElem)
       (setElementValue ''name'' (PString (scriptName this)))"

definition Material_ToElement :: "MaterialCollaborators \<Rightarrow> Material \<Rightarrow> Element option" where
  "Material_ToElement env this =
     Option.bind (setElementValue ''ambient'' (PColor (ambient this)) (materialSdf env))
       (\<lambda>e1. Option.bind (setElementValue ''diffuse'' (PColor (diffuse this)) e1)
       (\<lambda>e2. Option.bind (setElementValue ''specular'' (PColor (specular this)) e2)
       (\<lambda>e3. Option.bind (setElementValue ''emissive'' (PColor (emissive this)) e3)
       (\<lambda>e4. Option.bind (setElementValue ''render_order'' (PFloat (renderOrder this)) e4)
       (\<lambda>e5. Option.bind (setElementValue ''lighting'' (PBool (lighting this)) e5)
       (\<lambda>e6. Option.bind (setElementValue ''double_sided'' (PBool (doubleSided this)) e6)
       (\<lambda>e7. Option.bind
          (if scriptName this \<noteq> [] \<and> scriptUri this \<noteq> []
           then withElement ''script'' (writeScript this) None e7 else Some e7)
       (\<lambda>e8. Option.bind (withElement ''shader'' (writeShader this) None e8)
       (\<lambda>e9. case pbr this of
                None \<Rightarrow> Some e9
              | Some p \<Rightarrow> withElement ''pbr'' (writePbr env p) None e9)))))))))"

section \<open>A small schema and document, for evaluation\<close>

text \<open>Descriptions of \<^verbatim>\<open>pose\<close>, \<^verbatim>\<open>frame\<close>, \<^verbatim>\<open>link\<close> and \<^verbatim>\<open>model\<close>
  elements, and instances of them, on which the functions above are evaluated.\<close>

definition stringAttribute :: "string \<Rightarrow> string \<Rightarrow> string Param" where
  "stringAttribute k d =
     \<lparr> key = k, typeName = ''string'', isRequired = False, defaultValue = d, val = d,
       isSet = False \<rparr>"

definition description ::
  "string \<Rightarrow> string \<Rightarrow> string Param list \<Rightarrow> (string \<times> ParamValue) option \<Rightarrow> Element list
     \<Rightarrow> Element" where
  "description n r as v ds =
     Element \<lparr> name = n, required = r, copyChildren = False, referenceSDF = [], path = [],
       originalVersion = [], explicitlySetInFile = True, attributes = as,
       elemValue = map_option (\<lambda>(ty, d). \<lparr> key = n, typeName = ty, isRequired = False,
                     defaultValue = d, val = d, isSet = False \<rparr>) v \<rparr> [] ds None"

definition withAttributes :: "(string \<times> string) list \<Rightarrow> Element \<Rightarrow> Element" where
  "withAttributes kvs e = fold (\<lambda>(k, v). updAttribute k (Param_Set v)) kvs e"

definition ex_pose :: Element where
  "ex_pose = description ''pose'' ''0'' [stringAttribute ''relative_to'' []]
               (Some (''pose'', PPose Pose3d_Zero)) []"

definition ex_frame :: Element where
  "ex_frame = description ''frame'' ''*''
     [stringAttribute ''name'' [], stringAttribute ''attached_to'' []] None [ex_pose]"

definition ex_link :: Element where
  "ex_link = description ''link'' ''*'' [stringAttribute ''name'' []] None [ex_pose]"

definition ex_plugin :: Element where
  "ex_plugin = updImpl (\<lambda>i. i\<lparr>copyChildren := True\<rparr>)
     (description ''plugin'' ''*''
        [stringAttribute ''name'' [], stringAttribute ''filename'' []] None [])"

definition ex_model :: Element where
  "ex_model = description ''model'' ''*'' [stringAttribute ''name'' []] None
     [ex_link, ex_frame, ex_pose, ex_plugin]"

definition ex_light :: Element where
  "ex_light = description ''light'' ''*'' [stringAttribute ''name'' []] None [ex_pose]"

definition ex_uri :: Element where
  "ex_uri = description ''uri'' ''1'' [] (Some (''string'', PString [])) []"

definition ex_include :: Element where
  "ex_include = description ''include'' ''*'' [stringAttribute ''merge'' []] None [ex_uri]"

definition ex_world :: Element where
  "ex_world = description ''world'' ''*'' [stringAttribute ''name'' []] None
     [ex_model, ex_light, ex_include]"

definition ex_sdf :: Element where
  "ex_sdf = description ''sdf'' ''1'' [stringAttribute ''version'' []] None
     [ex_world, ex_model, ex_light]"

definition ex_parent :: Element where
  "ex_parent = withAttributes [(''name'', ''P'')] ex_model"

definition ex_included_model :: Element where
  "ex_included_model =
     setElements
       [withAttributes [(''name'', ''L'')] ex_link,
        setElements [withAttributes [(''relative_to'', ''__model__'')] ex_pose]
          (withAttributes [(''name'', ''F'')] ex_frame),
        setElements [ex_pose]
          (withAttributes [(''name'', ''G''), (''attached_to'', ''L'')] ex_frame)]
       (withAttributes [(''name'', ''M'')] ex_model)"

definition ex_included_root :: Element where
  "ex_included_root = setElements [ex_included_model] (description ''sdf'' ''1'' [] None [ex_model])"

definition ex_ModelInfo :: ModelInfo where
  "ex_ModelInfo = \<lparr> Model_Name = ''M'', CanonicalLinkRelativeName = ''L'',
     RawPose = Pose3d 1 0 0 0 0 0, PlacementFrameName = [], PoseRelativeTo = [],
     SemanticPose_Resolve = ([], Pose3d 1 0 0 0 0 0) \<rparr>"

definition ex_Root_Load :: "Element \<Rightarrow> Errors \<times> ModelInfo option" where
  "ex_Root_Load r = ([], Some ex_ModelInfo)"

text \<open>An included document with a \<^verbatim>\<open>light\<close> before a \<^verbatim>\<open>model\<close>, and collaborators:
  every string is accepted as a value, no file is a directory, every included file is that
  document, and the versions from 1.8 on are \<^verbatim>\<open>1.8\<close> and \<^verbatim>\<open>1.9\<close>.\<close>

definition ex_light_then_model :: Element where
  "ex_light_then_model =
     setElements
       [withAttributes [(''name'', ''sun'')] ex_light,
        withAttributes [(''name'', ''M'')] ex_model]
       (withAttributes [(''version'', ''1.9'')] ex_sdf)"

definition ex_env :: Collaborators where
  "ex_env = \<lparr>
     isValidFrameReference = (\<lambda>n. n \<noteq> ''__root__''),
     Attribute_SetFromString = (\<lambda>p text. Some (p\<lparr>val := text, isSet := True\<rparr>)),
     Value_SetFromString = (\<lambda>p text. Some (p\<lparr>val := PString text, isSet := True\<rparr>)),
     Value_Reparse = Some,
     resolveReferenceSDF = (\<lambda>e. e),
     findFile = (\<lambda>uri. uri),
     is_directory = (\<lambda>p. False),
     getModelFilePath = (\<lambda>p. p),
     includeSDFTemplate = ex_sdf,
     readFile = (\<lambda>fileName template. (True, ex_light_then_model, [])),
     updateParams = (\<lambda>x r. (r, [])),
     Root_Load = ex_Root_Load,
     XMLUtil_ToBool = (\<lambda>v. if v = ''true'' then Some True
                            else if v = ''false'' then Some False else None),
     Converter_Convert = (\<lambda>d. d),
     SDF_Version = ''1.9'',
     versionAtLeast_1_8 = (\<lambda>v. v = ''1.8'' \<or> v = ''1.9''),
     kSdfStringSource = ''data-string'' \<rparr>"

definition ex_config :: ParserConfig where
  "ex_config = \<lparr> WarningsPolicy = WARN, UnrecognizedElementsPolicy = WARN,
     DeprecatedElementsPolicy = WARN, CustomModelParsers_empty = True \<rparr>"

text \<open>Documents: a model with a plugin whose name holds the delimiter; two top-level
  models, the second with a pose relative to a frame; a world with an include.\<close>

definition ex_doc_plugin :: XMLDocument where
  "ex_doc_plugin =
     [XMLElement ''sdf'' [(''version'', ''1.9'')] None
        [XMLElement ''model'' [(''name'', ''m'')] None
           [XMLElement ''plugin'' [(''name'', ''a::b''), (''filename'', ''f'')] None []]]]"

definition ex_doc_two_models :: XMLDocument where
  "ex_doc_two_models =
     [XMLElement ''sdf'' [(''version'', ''1.9'')] None
        [XMLElement ''model'' [(''name'', ''m1'')] None [],
         XMLElement ''model'' [(''name'', ''m2'')] None
           [XMLElement ''pose'' [(''relative_to'', ''m1'')] (Some ''0 0 0 0 0 0'') []]]]"

definition ex_world_include :: XMLElement where
  "ex_world_include =
     XMLElement ''world'' [(''name'', ''w'')] None
       [XMLElement ''include'' [] None
          [XMLElement ''uri'' [] (Some ''lamp.sdf'') [],
           XMLElement ''name'' [] (Some ''renamed'') []]]"

definition ex_doc_bad_pose :: XMLDocument where
  "ex_doc_bad_pose =
     [XMLElement ''sdf'' [(''version'', ''1.9'')] None
        [XMLElement ''model'' [(''name'', ''m'')] None
           [XMLElement ''pose'' [(''relative_to'', ''w'')] (Some ''0 0 0 0 0 0'') []]]]"

definition ex_doc_bad_name :: XMLDocument where
  "ex_doc_bad_name =
     [XMLElement ''sdf'' [(''version'', ''1.9'')] None
        [XMLElement ''model'' [(''name'', ''a::b'')] None []]]"

text \<open>A joint with a required child, and an element that copies its children and has a
  required child.\<close>

definition ex_child :: Element where
  "ex_child = description ''child'' ''1'' [] (Some (''string'', PString [])) []"

definition ex_joint :: Element where
  "ex_joint = description ''joint'' ''*''
     [stringAttribute ''name'' [], stringAttribute ''type'' []] None [ex_child]"

definition ex_copying :: Element where
  "ex_copying = updImpl (\<lambda>i. i\<lparr>copyChildren := True\<rparr>)
     (description ''plugin'' ''*'' [] None [ex_uri])"

definition ex_SDF :: SDFImpl where
  "ex_SDF = \<lparr> sdfRoot = Some ex_sdf, sdfPath = [], sdfOriginalVersion = [] \<rparr>"

text \<open>The description of a link with its inertial data, its wind flag and its named
  children; collaborators of \<^verbatim>\<open>Link.cc\<close> for which a mass matrix is valid when its
  mass is positive and the children of a name are read by their \<^verbatim>\<open>name\<close> attribute; and a
  link of negative mass.\<close>

definition ex_double :: "string \<Rightarrow> string \<Rightarrow> real \<Rightarrow> Element" where
  "ex_double n r d = description n r [] (Some (''double'', PDouble d)) []"

definition ex_inertia :: Element where
  "ex_inertia = description ''inertia'' ''0'' [] None
     [ex_double ''ixx'' ''1'' 1, ex_double ''ixy'' ''1'' 0, ex_double ''ixz'' ''1'' 0,
      ex_double ''iyy'' ''1'' 1, ex_double ''iyz'' ''1'' 0, ex_double ''izz'' ''1'' 1]"

definition ex_inertial :: Element where
  "ex_inertial = description ''inertial'' ''0'' [] None
     [ex_double ''mass'' ''0'' 1, ex_pose, ex_inertia]"

definition ex_enable_wind :: Element where
  "ex_enable_wind = description ''enable_wind'' ''0'' [] (Some (''bool'', PBool False)) []"

definition ex_named :: "string \<Rightarrow> Element" where
  "ex_named n = description n ''*'' [stringAttribute ''name'' []] None []"

definition ex_link_sdf :: Element where
  "ex_link_sdf = description ''link'' ''*'' [stringAttribute ''name'' []] None
     [ex_pose, ex_inertial, ex_enable_wind, ex_named ''collision'', ex_named ''light'',
      ex_named ''particle_emitter'', ex_named ''sensor'', ex_named ''visual'']"

definition ex_link_env :: "unit LinkCollaborators" where
  "ex_link_env = \<lparr>
     isReservedName = (\<lambda>n. n = ''world'' \<or> n = ''__model__''),
     loadUniqueRepeated = (\<lambda>e n. ([],
        map (\<lambda>c. \<lparr> Name = fst (Get asString [] c ''name'' []), payload = () \<rparr>)
          (filter (\<lambda>c. GetName c = n) (elements e)))),
     MassMatrix3d_IsValid = (\<lambda>m. 0 < Mass m),
     linkSdf = ex_link_sdf,
     Entity_ToElement = (\<lambda>n x. withAttributes [(''name'', Name x)] (ex_named n)) \<rparr>"

definition ex_negative_mass_link :: Element where
  "ex_negative_mass_link =
     setElements
       [setElements [Element_Set (PDouble (- 1)) (ex_double ''mass'' ''0'' 1)] ex_inertial,
        Element_Set (PBool True) ex_enable_wind,
        withAttributes [(''name'', ''v'')] (ex_named ''visual'')]
       (withAttributes [(''name'', ''L'')] ex_link_sdf)"

section \<open>Basic facts about elements\<close>


lemma impl_updImpl [simp]: "impl (updImpl f e) = f (impl e)"
  by (cases e) simp
lemma elements_updImpl [simp]: "elements (updImpl f e) = elements e"
  by (cases e) simp
lemma elementDescriptions_updImpl [simp]: "elementDescriptions (updImpl f e) = elementDescriptions e"
  by (cases e) simp
lemma includeElement_updImpl [simp]: "includeElement (updImpl f e) = includeElement e"
  by (cases e) simp
lemma impl_setElements [simp]: "impl (setElements es e) = impl e"
  by (cases e) simp
lemma elements_setElements [simp]: "elements (setElements es e) = es"
  by (cases e) simp
lemma elementDescriptions_setElements [simp]:
  "elementDescriptions (setElements es e) = elementDescriptions e"
  by (cases e) simp
lemma impl_InsertElement [simp]: "impl (InsertElement c e) = impl e"
  by (cases e) simp
lemma elements_InsertElement [simp]: "elements (InsertElement c e) = elements e @ [c]"
  by (cases e) simp
lemma elementDescriptions_InsertElement [simp]:
  "elementDescriptions (InsertElement c e) = elementDescriptions e"
  by (cases e) simp

lemma fold_insert_impl:
  "impl (fold (\<lambda>d2 e. if P d2 then (case g d2 of None \<Rightarrow> e | Some d3 \<Rightarrow> InsertElement (h d3) e) else e) ds e0)
     = impl e0"
  by (induction ds arbitrary: e0) (auto split: option.splits)

lemma fold_insert_descs:
  "elementDescriptions (fold (\<lambda>d2 e. if P d2 then (case g d2 of None \<Rightarrow> e | Some d3 \<Rightarrow> InsertElement (h d3) e) else e) ds e0)
     = elementDescriptions e0"
  by (induction ds arbitrary: e0) (auto split: option.splits)

lemma impl_cloneWithRequired [simp]: "impl (cloneWithRequired d) = impl d"
  by (cases d) (simp add: fold_insert_impl)

lemma elementDescriptions_cloneWithRequired [simp]:
  "elementDescriptions (cloneWithRequired d) = elementDescriptions d"
  by (cases d) (simp add: fold_insert_descs)

lemma GetName_find: "find (\<lambda>d. GetName d = n) ds = Some d \<Longrightarrow> GetName d = n"
  by (induction ds) (auto split: if_splits)

lemma mergeChildren_elements:
  "mergeChildren proxy cs p = Some p' \<Longrightarrow> \<exists>hs. elements p' = elements p @ hs"
proof (induction cs arbitrary: p)
  case Nil
  then show ?case by simp
next
  case (Cons c cs)
  then show ?case by (fastforce split: option.splits if_splits)
qed

lemma val_find_updFirstParam:
  "find (\<lambda>p. key p = k) ps = Some y \<Longrightarrow>
   map_option val (find (\<lambda>p. key p = k) (updFirstParam k (Param_Set v) ps)) = Some v"
  by (induction ps) (auto simp: Param_Set_def)

lemma find_updFirstParam_other:
  "k' \<noteq> k \<Longrightarrow> find (\<lambda>p. key p = k') (updFirstParam k (Param_Set v) ps)
     = find (\<lambda>p. key p = k') ps"
  by (induction ps) (auto simp: Param_Set_def)

lemma setAttribute_Some:
  assumes "setAttribute k v e = Some e'"
  shows "map_option val (GetAttribute e' k) = Some v"
    and "k' \<noteq> k \<Longrightarrow> GetAttribute e' k' = GetAttribute e k'"
    and "elements e' = elements e" and "elementDescriptions e' = elementDescriptions e"
    and "GetName e' = GetName e" and "GetValue e' = GetValue e"
proof -
  from assms obtain y where y: "find (\<lambda>p. key p = k) (attributes (impl e)) = Some y"
    and e': "e' = updAttribute k (Param_Set v) e"
    by (auto simp: setAttribute_def HasAttribute_def GetAttribute_def split: if_splits)
  show "map_option val (GetAttribute e' k) = Some v"
    using val_find_updFirstParam[OF y] by (simp add: e' GetAttribute_def updAttribute_def)
  show "k' \<noteq> k \<Longrightarrow> GetAttribute e' k' = GetAttribute e k'"
    by (simp add: e' GetAttribute_def updAttribute_def find_updFirstParam_other)
  show "elements e' = elements e" "elementDescriptions e' = elementDescriptions e"
    "GetName e' = GetName e" "GetValue e' = GetValue e"
    by (simp_all add: e' updAttribute_def GetName_def GetValue_def)
qed

lemmas ex_defs = stringAttribute_def description_def withAttributes_def ex_pose_def
  ex_frame_def ex_link_def ex_model_def ex_plugin_def ex_light_def ex_uri_def ex_include_def
  ex_world_def ex_sdf_def ex_light_then_model_def ex_env_def ex_config_def ex_doc_plugin_def
  ex_doc_two_models_def ex_world_include_def ex_SDF_def ex_doc_bad_pose_def
  ex_doc_bad_name_def ex_child_def ex_joint_def ex_copying_def ex_parent_def ex_included_model_def
  ex_included_root_def ex_ModelInfo_def ex_Root_Load_def

lemmas element_defs = GetName_def GetRequired_def GetValue_def GetCopyChildren_def
  ReferenceSDF_def FilePath_def OriginalVersion_def GetAttribute_def
  HasAttribute_def updAttribute_def GetElementImpl_def HasElement_def GetFirstElement_def
  GetElementDescription_def HasElementDescription_def AddElement_def withElementImpl_def
  withElement_def setAttribute_def Element_Set_def updValue_def Param_Set_def GetOwn_def

lemmas merge_defs = insertIncludedElement_def mergeModel_def makeProxyModelFrame_def
  modelPoseRelativeTo_def computeMergedModelProxyFrameName_def rewriteMergedChild_def
  setAttributeToProxyFrame_def setValueToProxyFrame_def isHoisted_def

lemmas read_defs = checkDeprecated_def withReferenceSDF_def readXml_null_def
  readXml_element_def readInclude_def readChild_def
  readAttributes_def readValue_def checkRequiredElements_def includeHead_def includeTail_def
  includeOverrides_def overrideName_def overridePose_def overrideStatic_def
  overridePlacementFrame_def overridePoseAttribute_def resolveFileNameFromUri_def
  isSdfFile_def nextTopLevelElem_def BoolAttribute_def attributeSetFromString_def
  valueSetFromString_def enforceConfigurablePolicyCondition_def frameReferenceAttributes_def
  FirstChildElement_def Attribute_def Doc_FirstChildElement_def setLastChild_def
  AddAttribute_def AddValue_def SetName_def Element_new_def SetExplicitlySetInFile_def
  updElementImpl_def Get_def

lemmas doc_defs = Let_def sublist_code prefix_code readDoc_def preparedRoot_def preparedSDF_def convertedDoc_def
  checkXmlFromRoot_def shouldValidateElement_def SetFilePath_def SetOriginalVersion_def

lemmas ex_link_defs = ex_double_def ex_inertia_def ex_inertial_def ex_enable_wind_def
  ex_named_def ex_link_sdf_def ex_link_env_def ex_negative_mass_link_def

lemmas link_defs = loadName_def loadPose_def loadInertial_def loadInertiaMoments_def
  Link_Load_def Link_new_def Get_def Pose3d_Zero_def Vector3d_One_def Vector3d_Zero_def

lemma ex_merge_Some:
  "insertIncludedElement ex_Root_Load (Some ex_included_root) True ex_parent [] \<noteq> None"
  by (simp add: ex_defs element_defs merge_defs)

lemma ex_merge_result:
  "insertIncludedElement ex_Root_Load (Some ex_included_root) True ex_parent []
     = Some (fst (the (insertIncludedElement ex_Root_Load (Some ex_included_root) True
                         ex_parent [])),
             snd (the (insertIncludedElement ex_Root_Load (Some ex_included_root) True
                         ex_parent [])))"
  using ex_merge_Some by auto

section \<open>Merge-include\<close>

text \<open>
  Claim C1.  A merge-include that succeeds (the included root's first element is a model,
  the parent is a model, the throwaway root loads a model \<open>m\<close>, and no null pointer is
  met) leaves in the parent, right after the children it had, a \<^verbatim>\<open>frame\<close> element
  whose \<^verbatim>\<open>name\<close> attribute is \<^verbatim>\<open>_merged__<name of m>__model__\<close>, whose
  \<^verbatim>\<open>attached_to\<close> attribute is the canonical link name of \<open>m\<close>, and whose last
  child is a \<^verbatim>\<open>pose\<close> element with value the raw pose of \<open>m\<close> when \<open>m\<close> has no
  placement frame and the pose resolved by \<^verbatim>\<open>SemanticPose().Resolve\<close> otherwise, and
  with \<^verbatim>\<open>relative_to\<close> attribute the \<^verbatim>\<open>PoseRelativeTo()\<close> of \<open>m\<close>, or
  \<^verbatim>\<open>__model__\<close> when that is empty.  The schema is assumed to give the
  \<^verbatim>\<open>pose\<close> of a \<^verbatim>\<open>frame\<close> a value.
\<close>

theorem merge_include_proxy_frame:
  assumes first: "GetFirstElement rootElem = Some firstElem"
    and "GetName firstElem = ''model''" and "GetName parent = ''model''"
    and load: "loadRoot rootElem = (domErrors, Some m)"
    and fd: "GetElementDescription parent ''frame'' = Some fd"
    and pd: "GetElementDescription fd ''pose'' = Some pd"
    and pv: "GetValue pd = Some pv"
    and ins: "insertIncludedElement loadRoot (Some rootElem) True parent errors
                = Some (parent', errors')"
  shows "\<exists>proxyFrame proxyPose hoisted.
           elements parent' = elements parent @ proxyFrame # hoisted
         \<and> GetName proxyFrame = ''frame''
         \<and> map_option val (GetAttribute proxyFrame ''name'')
             = Some (''_merged__'' @ Model_Name m @ ''__model__'')
         \<and> map_option val (GetAttribute proxyFrame ''attached_to'')
             = Some (CanonicalLinkRelativeName m)
         \<and> elements proxyFrame \<noteq> [] \<and> last (elements proxyFrame) = proxyPose
         \<and> GetName proxyPose = ''pose''
         \<and> map_option val (GetValue proxyPose)
             = Some (PPose (if PlacementFrameName m = [] then RawPose m
                            else snd (SemanticPose_Resolve m)))
         \<and> map_option val (GetAttribute proxyPose ''relative_to'')
             = Some (if PoseRelativeTo m = [] then ''__model__'' else PoseRelativeTo m)"
proof -
  define modelPose where
    "modelPose = (if PlacementFrameName m = [] then RawPose m else snd (SemanticPose_Resolve m))"
  define proxy where "proxy = computeMergedModelProxyFrameName (Model_Name m)"
  from ins first assms(2,3) load fd
  obtain errors1 pf where
    mk: "makeProxyModelFrame m modelPose (cloneWithRequired fd) = Some pf"
    and mc: "mergeChildren proxy (elements firstElem) (InsertElement pf parent) = Some parent'"
    by (cases "PlacementFrameName m = []")
       (auto simp: insertIncludedElement_def mergeModel_def modelPose_def proxy_def Let_def
        split: Option.bind_splits)
  from mk obtain f1 f2 f3 pp where
    f1: "setAttribute ''name'' proxy (cloneWithRequired fd) = Some f1"
    and f2: "setAttribute ''attached_to'' (CanonicalLinkRelativeName m) f1 = Some f2"
    and f3: "AddElement f2 ''pose'' = Some f3"
    and pp: "setAttribute ''relative_to'' (modelPoseRelativeTo m)
               (Element_Set (PPose modelPose) (last (elements f3))) = Some pp"
    and pf: "pf = setElements (butlast (elements f3) @ [pp]) f3"
    by (auto simp: makeProxyModelFrame_def proxy_def split: Option.bind_splits)
  have d2: "elementDescriptions f2 = elementDescriptions fd"
    using setAttribute_Some(4)[OF f1] setAttribute_Some(4)[OF f2] by simp
  have f3eq: "f3 = InsertElement (cloneWithRequired pd) f2"
    using f3 pd d2 by (simp add: AddElement_def GetElementDescription_def)
  have n_pd: "GetName pd = ''pose''" and n_fd: "GetName fd = ''frame''"
    using pd fd by (auto simp: GetElementDescription_def dest: GetName_find)
  have lastf3: "last (elements f3) = cloneWithRequired pd"
    by (simp add: f3eq)
  have name_pf: "GetName pf = ''frame''"
    using setAttribute_Some(5)[OF f1] setAttribute_Some(5)[OF f2] n_fd
    by (simp add: pf f3eq GetName_def)
  have a_name: "map_option val (GetAttribute pf ''name'') = Some proxy"
    using setAttribute_Some(1)[OF f1] setAttribute_Some(2)[OF f2, of "''name''"]
    by (simp add: pf f3eq GetAttribute_def)
  have a_att: "map_option val (GetAttribute pf ''attached_to'')
                 = Some (CanonicalLinkRelativeName m)"
    using setAttribute_Some(1)[OF f2] by (simp add: pf f3eq GetAttribute_def)
  have pp_name: "GetName pp = ''pose''"
    using setAttribute_Some(5)[OF pp] n_pd
    by (simp add: lastf3 Element_Set_def updValue_def GetName_def)
  have pp_val: "map_option val (GetValue pp) = Some (PPose modelPose)"
    using setAttribute_Some(6)[OF pp] pv
    by (simp add: lastf3 Element_Set_def updValue_def GetValue_def Param_Set_def)
  have pp_rel: "map_option val (GetAttribute pp ''relative_to'') = Some (modelPoseRelativeTo m)"
    using setAttribute_Some(1)[OF pp] .
  from mergeChildren_elements[OF mc] obtain hs where
    hs: "elements parent' = elements parent @ pf # hs" by auto
  show ?thesis
    using hs name_pf a_name a_att pp_name pp_val pp_rel
    by (intro exI[of _ pf] exI[of _ pp] exI[of _ hs])
       (simp add: pf proxy_def computeMergedModelProxyFrameName_def modelPose_def
          modelPoseRelativeTo_def)
qed



theorem merge_include_proxy_frame_witness:
  "\<exists>proxyFrame proxyPose hoisted.
     elements (fst (the (insertIncludedElement ex_Root_Load (Some ex_included_root) True
                           ex_parent [])))
       = elements ex_parent @ proxyFrame # hoisted
     \<and> GetName proxyFrame = ''frame''
     \<and> map_option val (GetAttribute proxyFrame ''name'') = Some ''_merged__M__model__''
     \<and> map_option val (GetAttribute proxyFrame ''attached_to'') = Some ''L''
     \<and> elements proxyFrame \<noteq> [] \<and> last (elements proxyFrame) = proxyPose
     \<and> GetName proxyPose = ''pose''
     \<and> map_option val (GetValue proxyPose) = Some (PPose (Pose3d 1 0 0 0 0 0))
     \<and> map_option val (GetAttribute proxyPose ''relative_to'') = Some ''__model__''"
proof -
  have h1: "GetFirstElement ex_included_root = Some ex_included_model"
    by (simp add: ex_included_root_def GetFirstElement_def description_def)
  have h2: "GetName ex_included_model = ''model''"
    by (simp add: ex_defs element_defs)
  have h3: "GetName ex_parent = ''model''"
    by (simp add: ex_defs element_defs)
  have h4: "ex_Root_Load ex_included_root = ([], Some ex_ModelInfo)"
    by (simp add: ex_Root_Load_def)
  have h5: "GetElementDescription ex_parent ''frame'' = Some ex_frame"
    by (simp add: ex_defs element_defs)
  have h6: "GetElementDescription ex_frame ''pose'' = Some ex_pose"
    by (simp add: ex_defs element_defs)
  have h7: "GetValue ex_pose = Some \<lparr> key = ''pose'', typeName = ''pose'', isRequired = False,
              defaultValue = PPose Pose3d_Zero, val = PPose Pose3d_Zero, isSet = False \<rparr>"
    by (simp add: ex_defs element_defs)
  show ?thesis
    using merge_include_proxy_frame [OF h1 h2 h3 h4 h5 h6 h7 ex_merge_result]
    by (simp add: ex_ModelInfo_def)
qed

text \<open>
  Claim C2.  When the merge flag is set and the first element of the included root is not
  a \<^verbatim>\<open>model\<close>, or the parent element is not a \<^verbatim>\<open>model\<close>,
  \<^verbatim>\<open>insertIncludedElement\<close> appends one error of kind
  \<^verbatim>\<open>MERGE_INCLUDE_UNSUPPORTED\<close> and returns with the parent element unchanged.
\<close>

theorem merge_include_unsupported:
  assumes "GetFirstElement rootElem = Some firstElem"
    and "GetName firstElem \<noteq> ''model'' \<or> GetName parent \<noteq> ''model''"
  shows "\<exists>msg. insertIncludedElement loadRoot (Some rootElem) True parent errors
           = Some (parent, errors @ [Error MERGE_INCLUDE_UNSUPPORTED msg])"
  using assms by (auto simp: insertIncludedElement_def)


theorem merge_include_unsupported_witness:
  "\<exists>msg. insertIncludedElement ex_Root_Load (Some ex_included_root) True ex_link []
          = Some (ex_link, [] @ [Error MERGE_INCLUDE_UNSUPPORTED msg])"
proof -
  have h1: "GetFirstElement ex_included_root = Some ex_included_model"
    by (simp add: ex_included_root_def GetFirstElement_def description_def)
  have h2: "GetName ex_included_model \<noteq> ''model'' \<or> GetName ex_link \<noteq> ''model''"
    by (simp add: ex_defs element_defs)
  show ?thesis
    by (rule merge_include_unsupported [OF h1 h2])
qed

lemma setAttributeToProxyFrame_Some:
  assumes "setAttributeToProxyFrame proxy attr upd e = Some e'"
  shows "GetName e' = GetName e" and "elements e' = elements e"
    and "\<exists>a. GetAttribute e attr = Some a \<and>
           map_option val (GetAttribute e' attr)
             = Some (if val a = ''__model__'' \<or> (upd \<and> val a = []) then proxy else val a)"
    and "k \<noteq> attr \<Longrightarrow> GetAttribute e' k = GetAttribute e k"
proof -
  from assms obtain a where a: "GetAttribute e attr = Some a"
    and e': "e' = (if val a = ''__model__'' \<or> (upd \<and> val a = [])
                   then updAttribute attr (Param_Set proxy) e else e)"
    by (auto simp: setAttributeToProxyFrame_def split: option.splits if_splits)
  show "GetName e' = GetName e" "elements e' = elements e"
    by (simp_all add: e' updAttribute_def GetName_def)
  show "k \<noteq> attr \<Longrightarrow> GetAttribute e' k = GetAttribute e k"
    by (simp add: e' GetAttribute_def updAttribute_def find_updFirstParam_other)
  have "map_option val (GetAttribute (updAttribute attr (Param_Set proxy) e) attr) = Some proxy"
    using a val_find_updFirstParam[of attr "attributes (impl e)" a proxy]
    by (simp add: GetAttribute_def updAttribute_def)
  then show "\<exists>a. GetAttribute e attr = Some a \<and>
           map_option val (GetAttribute e' attr)
             = Some (if val a = ''__model__'' \<or> (upd \<and> val a = []) then proxy else val a)"
    using a by (auto simp: e')
qed

lemma find_updFirstChildO:
  assumes "updFirstChildO n f cs = Some cs'"
    and "\<And>c c'. f c = Some c' \<Longrightarrow> GetName c' = GetName c"
  shows "find (\<lambda>c. GetName c = n) cs' = Option.bind (find (\<lambda>c. GetName c = n) cs) f"
  using assms(1)
proof (induction cs arbitrary: cs')
  case Nil
  then show ?case by simp
next
  case (Cons c cs)
  then show ?case using assms(2) by (auto split: if_splits)
qed

lemma mergeChildren_member:
  assumes "mergeChildren proxy cs p = Some p'" and "c \<in> set cs"
  shows "\<exists>c'. rewriteMergedChild proxy c = Some c' \<and> (isHoisted c' \<longrightarrow> c' \<in> set (elements p'))"
  using assms
proof (induction cs arbitrary: p)
  case Nil
  then show ?case by simp
next
  case (Cons x xs)
  from Cons.prems(1) obtain x' where x': "rewriteMergedChild proxy x = Some x'"
    and rest: "mergeChildren proxy xs (if isHoisted x' then InsertElement x' p else p) = Some p'"
    by (auto split: option.splits)
  show ?case
  proof (cases "c = x")
    case True
    from mergeChildren_elements[OF rest] obtain hs where
      "elements p' = elements (if isHoisted x' then InsertElement x' p else p) @ hs" by auto
    then show ?thesis using True x' by auto
  next
    case False
    then have "c \<in> set xs" using Cons.prems(2) by simp
    from Cons.IH[OF rest this] show ?thesis .
  qed
qed

text \<open>
  Claim C3.  In a merge-include that succeeds, every \<^verbatim>\<open>frame\<close> child \<open>c\<close> of the
  merged model arrives in the parent as the element \<open>c'\<close> that the loop body makes of
  it: it is still a \<^verbatim>\<open>frame\<close>; its \<^verbatim>\<open>attached_to\<close> is the proxy frame name
  when it was \<^verbatim>\<open>__model__\<close> or empty and is unchanged otherwise; and the
  \<^verbatim>\<open>relative_to\<close> of its (first) \<^verbatim>\<open>pose\<close> child, when it has one, is the
  proxy frame name when it was \<^verbatim>\<open>__model__\<close> and is unchanged otherwise, an empty
  one included.
\<close>

theorem hoisted_frame_rewrite:
  assumes first: "GetFirstElement rootElem = Some firstElem"
    and "GetName firstElem = ''model''" and "GetName parent = ''model''"
    and load: "loadRoot rootElem = (domErrors, Some m)"
    and ins: "insertIncludedElement loadRoot (Some rootElem) True parent errors
                = Some (parent', errors')"
    and c: "c \<in> set (elements firstElem)" and frame: "GetName c = ''frame''"
  shows "\<exists>c' a. c' \<in> set (elements parent') \<and> GetName c' = ''frame''
         \<and> rewriteMergedChild (''_merged__'' @ Model_Name m @ ''__model__'') c = Some c'
         \<and> GetAttribute c ''attached_to'' = Some a
         \<and> map_option val (GetAttribute c' ''attached_to'')
             = Some (if val a = ''__model__'' \<or> val a = []
                     then ''_merged__'' @ Model_Name m @ ''__model__'' else val a)
         \<and> (case GetElementImpl c ''pose'' of
               None \<Rightarrow> GetElementImpl c' ''pose'' = None
             | Some p \<Rightarrow>
                 (\<exists>p' r. GetElementImpl c' ''pose'' = Some p'
                   \<and> GetAttribute p ''relative_to'' = Some r
                   \<and> map_option val (GetAttribute p' ''relative_to'')
                       = Some (if val r = ''__model__''
                               then ''_merged__'' @ Model_Name m @ ''__model__'' else val r)))"
proof -
  define proxy where "proxy = ''_merged__'' @ Model_Name m @ ''__model__''"
  from ins first assms(2,3) load
  obtain pf where
    mc: "mergeChildren proxy (elements firstElem) (InsertElement pf parent) = Some parent'"
    by (auto simp: insertIncludedElement_def mergeModel_def proxy_def Let_def
          computeMergedModelProxyFrameName_def
        split: Option.bind_splits option.splits prod.splits)
  from mergeChildren_member[OF mc c] obtain c' where
    rw: "rewriteMergedChild proxy c = Some c'"
    and mem: "isHoisted c' \<longrightarrow> c' \<in> set (elements parent')" by auto
  from rw frame obtain e1 where
    e1: "setAttributeToProxyFrame proxy ''attached_to'' True c = Some e1"
    and c': "withElementImpl ''pose'' (setAttributeToProxyFrame proxy ''relative_to'' False)
               (Some e1) e1 = Some c'"
    by (auto simp: rewriteMergedChild_def split: Option.bind_splits)
  note s1 = setAttributeToProxyFrame_Some[OF e1]
  from s1(3) obtain a where a: "GetAttribute c ''attached_to'' = Some a"
    and a1: "map_option val (GetAttribute e1 ''attached_to'')
               = Some (if val a = ''__model__'' \<or> val a = [] then proxy else val a)"
    by auto
  have pose_c: "GetElementImpl e1 ''pose'' = GetElementImpl c ''pose''"
    by (simp add: GetElementImpl_def s1(2))
  show ?thesis
  proof (cases "GetElementImpl c ''pose''")
    case None
    then have "c' = e1" using c' pose_c by (simp add: withElementImpl_def HasElement_def)
    then show ?thesis
      using None a a1 rw mem s1(1) frame pose_c
      by (auto simp: proxy_def isHoisted_def)
  next
    case (Some p)
    then have has: "HasElement e1 ''pose''" using pose_c by (simp add: HasElement_def)
    with c' obtain cs' where
      cs': "updFirstChildO ''pose'' (setAttributeToProxyFrame proxy ''relative_to'' False)
              (elements e1) = Some cs'"
      and c'eq: "c' = setElements cs' e1"
      by (auto simp: withElementImpl_def)
    have fnd: "find (\<lambda>c. GetName c = ''pose'') cs'
                 = Option.bind (find (\<lambda>c. GetName c = ''pose'') (elements e1))
                     (setAttributeToProxyFrame proxy ''relative_to'' False)"
      by (rule find_updFirstChildO[OF cs']) (rule setAttributeToProxyFrame_Some(1))
    from Some pose_c have fp: "find (\<lambda>c. GetName c = ''pose'') (elements e1) = Some p"
      by (simp add: GetElementImpl_def)
    have "find (\<lambda>c. GetName c = ''pose'') cs' \<noteq> None"
    proof
      assume "find (\<lambda>c. GetName c = ''pose'') cs' = None"
      moreover have "\<And>cs cs'. updFirstChildO ''pose''
            (setAttributeToProxyFrame proxy ''relative_to'' False) cs = Some cs' \<Longrightarrow>
            find (\<lambda>c. GetName c = ''pose'') cs \<noteq> None \<Longrightarrow>
            find (\<lambda>c. GetName c = ''pose'') cs' \<noteq> None"
      proof -
        fix cs cs'
        show "updFirstChildO ''pose''
            (setAttributeToProxyFrame proxy ''relative_to'' False) cs = Some cs' \<Longrightarrow>
            find (\<lambda>c. GetName c = ''pose'') cs \<noteq> None \<Longrightarrow>
            find (\<lambda>c. GetName c = ''pose'') cs' \<noteq> None"
          by (induction cs arbitrary: cs')
             (auto split: if_splits dest: setAttributeToProxyFrame_Some(1))
      qed
      ultimately show False using cs' fp by fastforce
    qed
    then obtain p' where p': "find (\<lambda>c. GetName c = ''pose'') cs' = Some p'" by auto
    with fnd fp have pp: "setAttributeToProxyFrame proxy ''relative_to'' False p = Some p'"
      by simp
    from setAttributeToProxyFrame_Some(3)[OF pp] obtain r where
      r: "GetAttribute p ''relative_to'' = Some r"
      and r': "map_option val (GetAttribute p' ''relative_to'')
                 = Some (if val r = ''__model__'' then proxy else val r)" by auto
    have gp': "GetElementImpl c' ''pose'' = Some p'"
      by (simp add: GetElementImpl_def c'eq p')
    have att': "GetAttribute c' ''attached_to'' = GetAttribute e1 ''attached_to''"
      by (simp add: c'eq GetAttribute_def)
    have nm: "GetName c' = ''frame''"
      using s1(1) frame by (simp add: c'eq GetName_def)
    then have "isHoisted c'" by (simp add: isHoisted_def)
    with mem have "c' \<in> set (elements parent')" by simp
    then show ?thesis
      using Some a a1 rw nm gp' r r' att'
      by (auto simp: proxy_def)
  qed
qed


theorem hoisted_frame_rewrite_witness:
  "\<exists>c'. c' \<in> set (elements (fst (the (insertIncludedElement ex_Root_Load
                      (Some ex_included_root) True ex_parent []))))
     \<and> GetName c' = ''frame''
     \<and> map_option val (GetAttribute c' ''name'') = Some ''F''
     \<and> map_option val (GetAttribute c' ''attached_to'') = Some ''_merged__M__model__''
     \<and> map_option (\<lambda>p. map_option val (GetAttribute p ''relative_to''))
           (GetElementImpl c' ''pose'') = Some (Some ''_merged__M__model__'')"
proof -
  define c where "c = setElements [withAttributes [(''relative_to'', ''__model__'')] ex_pose]
          (withAttributes [(''name'', ''F'')] ex_frame)"
  have h1: "GetFirstElement ex_included_root = Some ex_included_model"
    by (simp add: ex_included_root_def GetFirstElement_def description_def)
  have h2: "GetName ex_included_model = ''model''"
    by (simp add: ex_defs element_defs)
  have h3: "GetName ex_parent = ''model''"
    by (simp add: ex_defs element_defs)
  have h4: "ex_Root_Load ex_included_root = ([], Some ex_ModelInfo)"
    by (simp add: ex_Root_Load_def)
  have h5: "c \<in> set (elements ex_included_model)"
    by (simp add: c_def ex_included_model_def)
  have h6: "GetName c = ''frame''"
    by (simp add: c_def ex_defs element_defs)
  have a: "GetAttribute c ''attached_to'' = Some (stringAttribute ''attached_to'' [])"
    by (simp add: c_def ex_defs element_defs)
  have p: "GetElementImpl c ''pose''
             = Some (withAttributes [(''relative_to'', ''__model__'')] ex_pose)"
    by (simp add: c_def ex_defs element_defs)
  have r: "map_option val (GetAttribute (withAttributes [(''relative_to'', ''__model__'')] ex_pose)
              ''relative_to'') = Some ''__model__''"
    by (simp add: ex_defs element_defs)
  have rw: "map_option (\<lambda>c'. map_option val (GetAttribute c' ''name''))
              (rewriteMergedChild ''_merged__M__model__'' c) = Some (Some ''F'')"
    by (simp add: c_def ex_defs element_defs merge_defs)
  from hoisted_frame_rewrite [OF h1 h2 h3 h4 ex_merge_result h5 h6]
  obtain c' p' where "c' \<in> set (elements (fst (the (insertIncludedElement ex_Root_Load
                      (Some ex_included_root) True ex_parent []))))"
    and "GetName c' = ''frame''"
    and "rewriteMergedChild ''_merged__M__model__'' c = Some c'"
    and "map_option val (GetAttribute c' ''attached_to'') = Some ''_merged__M__model__''"
    and "GetElementImpl c' ''pose'' = Some p'"
    and "map_option val (GetAttribute p' ''relative_to'') = Some ''_merged__M__model__''"
    using a p r by (auto simp: ex_ModelInfo_def stringAttribute_def)
  then show ?thesis
    using rw by (intro exI[of _ c']) simp
qed

section \<open>The required children of an element\<close>

lemma loop_nonBallJoint:
  "nonBallJoint sdf \<Longrightarrow>
   checkRequiredElements_loop ds sdf errors =
     (case find (\<lambda>d. (GetRequired d = ''1'' \<or> GetRequired d = ''+'')
                      \<and> \<not> HasElement sdf (GetName d)) ds of
        None \<Rightarrow> Some (True, sdf, errors)
      | Some d \<Rightarrow> Some (False, sdf, errors @ [Error ELEMENT_MISSING
                  (''XML Missing required element['' @ GetName d
                     @ ''], child of element['' @ GetName sdf @ '']'')]))"
  by (induction ds) (auto simp: nonBallJoint_def)

lemma AddElement_step:
  assumes "GetElementDescription sdf n = Some d0" 
  shows "AddElement sdf n = Some (InsertElement (cloneWithRequired d0) sdf)"
    and "setLastChild (SetExplicitlySetInFile False (last (elements (InsertElement (cloneWithRequired d0) sdf))))
           (InsertElement (cloneWithRequired d0) sdf) = addDefault sdf n"
  using assms
  by (cases sdf; simp add: AddElement_def setLastChild_def addDefault_def defaultElement_def)+

lemma find_append_new:
  "find P (xs @ [c]) = (case find P xs of Some x \<Rightarrow> Some x | None \<Rightarrow> if P c then Some c else None)"
  by (induction xs) auto

lemma GetName_SetExplicit [simp]: "GetName (SetExplicitlySetInFile b e) = GetName e"
  by (simp add: GetName_def SetExplicitlySetInFile_def)

lemma GetValue_SetExplicit [simp]: "GetValue (SetExplicitlySetInFile b e) = GetValue e"
  by (simp add: GetValue_def SetExplicitlySetInFile_def)

lemma GetName_cloneWithRequired [simp]: "GetName (cloneWithRequired d) = GetName d"
  by (simp add: GetName_def)

lemma GetValue_cloneWithRequired [simp]: "GetValue (cloneWithRequired d) = GetValue d"
  by (simp add: GetValue_def)

lemma addDefault_facts:
  assumes "GetElementDescription sdf n = Some d0"
  shows "GetName (addDefault sdf n) = GetName sdf"
    and "elementDescriptions (addDefault sdf n) = elementDescriptions sdf"
    and "HasElement (addDefault sdf n) n"
    and "HasElement sdf k \<Longrightarrow> HasElement (addDefault sdf n) k"
    and "Get asString [] (addDefault sdf n) ''type'' [] = Get asString [] sdf ''type'' []"
proof -
  have nm: "GetName d0 = n"
    using assms by (auto simp: GetElementDescription_def dest: GetName_find)
  show "GetName (addDefault sdf n) = GetName sdf"
    by (simp add: addDefault_def GetName_def)
  show "elementDescriptions (addDefault sdf n) = elementDescriptions sdf"
    by (simp add: addDefault_def)
  show "HasElement (addDefault sdf n) n"
    using assms nm
    by (simp add: addDefault_def HasElement_def GetElementImpl_def find_append_new
          defaultElement_def split: option.splits)
  show "HasElement sdf k \<Longrightarrow> HasElement (addDefault sdf n) k"
    by (auto simp: addDefault_def HasElement_def GetElementImpl_def find_append_new
          split: option.splits)
  show "Get asString [] (addDefault sdf n) ''type'' [] = Get asString [] sdf ''type'' []"
    using assms nm
    by (auto simp: Get_def GetAttribute_def addDefault_def GetElementImpl_def
          GetElementDescription_def find_append_new defaultElement_def GetOwn_def
          split: option.splits)
qed

lemma loop_adds:
  assumes "\<not> nonBallJoint sdf" and "set ds \<subseteq> set (elementDescriptions sdf)"
  shows "\<exists>added.
           checkRequiredElements_loop ds sdf errors
             = Some (True, setElements (elements sdf @ added) sdf, errors)
         \<and> (\<forall>d\<in>set ds. (GetRequired d = ''1'' \<or> GetRequired d = ''+'')
               \<longrightarrow> HasElement (setElements (elements sdf @ added) sdf) (GetName d))
         \<and> (\<forall>k. HasElement sdf k \<longrightarrow> HasElement (setElements (elements sdf @ added) sdf) k)
         \<and> (\<forall>a\<in>set added. \<exists>d\<in>set ds. (GetRequired d = ''1'' \<or> GetRequired d = ''+'')
               \<and> \<not> HasElement sdf (GetName d) \<and> a = defaultElement sdf (GetName d))"
  using assms
proof (induction ds arbitrary: sdf)
  case Nil
  show ?case by (intro exI[of _ "[]"]) (cases sdf, simp)
next
  case (Cons d ds)
  show ?case
  proof (cases "(GetRequired d = ''1'' \<or> GetRequired d = ''+'') \<and> \<not> HasElement sdf (GetName d)")
    case False
    from Cons.IH[of sdf] Cons.prems obtain added where
      a: "checkRequiredElements_loop ds sdf errors
             = Some (True, setElements (elements sdf @ added) sdf, errors)"
      and b: "\<forall>d\<in>set ds. (GetRequired d = ''1'' \<or> GetRequired d = ''+'')
               \<longrightarrow> HasElement (setElements (elements sdf @ added) sdf) (GetName d)"
      and c: "\<forall>k. HasElement sdf k \<longrightarrow> HasElement (setElements (elements sdf @ added) sdf) k"
      and e: "\<forall>a\<in>set added. \<exists>d\<in>set ds. (GetRequired d = ''1'' \<or> GetRequired d = ''+'')
               \<and> \<not> HasElement sdf (GetName d) \<and> a = defaultElement sdf (GetName d)"
      by auto
    show ?thesis
      using False a b c e by (intro exI[of _ added]) auto
  next
    case True
    from Cons.prems(2) have "d \<in> set (elementDescriptions sdf)" by simp
    then have "find (\<lambda>x. GetName x = GetName d) (elementDescriptions sdf) \<noteq> None"
      by (auto simp: find_None_iff)
    then obtain d0 where d0: "GetElementDescription sdf (GetName d) = Some d0"
      by (auto simp: GetElementDescription_def)
    let ?s = "addDefault sdf (GetName d)"
    note f = addDefault_facts[OF d0]
    have nj: "\<not> nonBallJoint ?s"
      using Cons.prems(1) f(1) f(5) by (simp add: nonBallJoint_def)
    have sub: "set ds \<subseteq> set (elementDescriptions ?s)"
      using Cons.prems(2) f(2) by simp
    from Cons.IH[OF nj sub] obtain added where
      a: "checkRequiredElements_loop ds ?s errors
             = Some (True, setElements (elements ?s @ added) ?s, errors)"
      and b: "\<forall>d\<in>set ds. (GetRequired d = ''1'' \<or> GetRequired d = ''+'')
               \<longrightarrow> HasElement (setElements (elements ?s @ added) ?s) (GetName d)"
      and c: "\<forall>k. HasElement ?s k \<longrightarrow> HasElement (setElements (elements ?s @ added) ?s) k"
      and e: "\<forall>a\<in>set added. \<exists>d\<in>set ds. (GetRequired d = ''1'' \<or> GetRequired d = ''+'')
               \<and> \<not> HasElement ?s (GetName d) \<and> a = defaultElement ?s (GetName d)"
      by auto
    let ?added = "defaultElement sdf (GetName d) # added"
    have eq: "setElements (elements ?s @ added) ?s = setElements (elements sdf @ ?added) sdf"
      by (cases sdf) (simp add: addDefault_def)
    have step: "checkRequiredElements_loop (d # ds) sdf errors
                  = checkRequiredElements_loop ds ?s errors"
    proof -
      have nj0: "\<not> (GetName sdf = ''joint'' \<and> fst (Get asString [] sdf ''type'' []) \<noteq> ''ball'')"
        using Cons.prems(1) by (simp add: nonBallJoint_def)
      show ?thesis
        by (simp only: checkRequiredElements_loop.simps True nj0 if_True if_False
              AddElement_step[OF d0] option.case simp_thms)
    qed
    have de: "\<And>k. defaultElement ?s k = defaultElement sdf k"
      by (simp add: defaultElement_def GetElementDescription_def f(2))
    show ?thesis
    proof (intro exI[of _ ?added] conjI)
      show "checkRequiredElements_loop (d # ds) sdf errors
              = Some (True, setElements (elements sdf @ ?added) sdf, errors)"
        using step a eq by simp
      show "\<forall>d\<in>set (d # ds). (GetRequired d = ''1'' \<or> GetRequired d = ''+'')
               \<longrightarrow> HasElement (setElements (elements sdf @ ?added) sdf) (GetName d)"
        using b c f(3) eq by auto
      show "\<forall>k. HasElement sdf k \<longrightarrow> HasElement (setElements (elements sdf @ ?added) sdf) k"
        using c f(4) eq by auto
      show "\<forall>a\<in>set ?added. \<exists>d\<in>set (d # ds). (GetRequired d = ''1'' \<or> GetRequired d = ''+'')
               \<and> \<not> HasElement sdf (GetName d) \<and> a = defaultElement sdf (GetName d)"
        using e True de f(4) by (auto; blast)
    qed
  qed
qed


lemma find_filter_Nil: "find P xs = None \<longleftrightarrow> filter P xs = []"
  by (induction xs) auto

lemma find_Some_filter: "find P xs = Some x \<Longrightarrow> filter P xs \<noteq> []"
  by (induction xs) (auto split: if_splits)

text \<open>
  Claim C5, as amended.  Let \<^verbatim>\<open>readXml\<close> read an XML element into an element that
  does not copy its children, and let it get past the attributes, the value and the loop
  over the child elements, with \<open>sdf5\<close> the element at that point.  If the element is a
  \<^verbatim>\<open>joint\<close> whose type is not \<^verbatim>\<open>ball\<close>, then \<^verbatim>\<open>readXml\<close> returns true with
  the element unchanged when no required child (cardinality \<open>1\<close> or \<open>+\<close>) is missing,
  and otherwise appends an \<^verbatim>\<open>ELEMENT_MISSING\<close> error and returns false.  In every
  other case \<^verbatim>\<open>readXml\<close> returns true, adds no error, and appends children to the
  element such that every required child description has a child, each appended child
  being the default element (\<^verbatim>\<open>AddElement\<close>, marked as not set in the file) of a
  required child description that was missing.
\<close>

theorem required_children_after_read:
  assumes "readAttributes env config xml (withReferenceSDF env sdf)
             (checkDeprecated config sdf errors) = (True, sdf2, errors2)"
    and "readValue env xml sdf2 = (True, sdf3)"
    and "\<not> GetCopyChildren sdf3"
    and "readChildren env config (XValue xml) (XChildren xml) sdf3 errors2
           = Some (True, sdf4, errors4)"
    and "copyChildren env sdf4 (XChildren xml) True = Some sdf5"
  shows "if GetName sdf5 = ''joint'' \<and> fst (Get asString [] sdf5 ''type'' []) \<noteq> ''ball''
         then (if missingRequired sdf5 = []
               then readXml env config (Some xml) sdf errors = Some (True, sdf5, errors4)
               else \<exists>msg. readXml env config (Some xml) sdf errors
                            = Some (False, sdf5, errors4 @ [Error ELEMENT_MISSING msg]))
         else \<exists>added.
                readXml env config (Some xml) sdf errors
                  = Some (True, setElements (elements sdf5 @ added) sdf5, errors4)
              \<and> (\<forall>d\<in>set (elementDescriptions sdf5).
                     GetRequired d = ''1'' \<or> GetRequired d = ''+''
                     \<longrightarrow> HasElement (setElements (elements sdf5 @ added) sdf5) (GetName d))
              \<and> (\<forall>a\<in>set added. \<exists>d\<in>set (missingRequired sdf5).
                     a = defaultElement sdf5 (GetName d))"
proof -
  have rd: "readXml env config (Some xml) sdf errors = checkRequiredElements sdf5 errors4"
    using assms by (cases xml) (simp add: readXml_element_def)
  show ?thesis
  proof (cases "nonBallJoint sdf5")
    case True
    then have c: "GetName sdf5 = ''joint'' \<and> fst (Get asString [] sdf5 ''type'' []) \<noteq> ''ball''"
      by (simp add: nonBallJoint_def)
    note l = loop_nonBallJoint[OF True, of "elementDescriptions sdf5" errors4]
    show ?thesis
    proof (cases "find (\<lambda>d. (GetRequired d = ''1'' \<or> GetRequired d = ''+'')
                      \<and> \<not> HasElement sdf5 (GetName d)) (elementDescriptions sdf5)")
      case None
      then have m: "missingRequired sdf5 = []"
        by (simp add: missingRequired_def find_filter_Nil)
      have "readXml env config (Some xml) sdf errors = Some (True, sdf5, errors4)"
        using l None rd by (simp add: checkRequiredElements_def)
      then show ?thesis
        unfolding if_P[OF c] if_P[OF m] .
    next
      case (Some d)
      then have m: "missingRequired sdf5 \<noteq> []"
        by (simp add: missingRequired_def find_Some_filter)
      have "\<exists>msg. readXml env config (Some xml) sdf errors
                            = Some (False, sdf5, errors4 @ [Error ELEMENT_MISSING msg])"
        using l Some rd by (simp add: checkRequiredElements_def)
      then show ?thesis
        unfolding if_P[OF c] if_not_P[OF m] .
    qed
  next
    case False
    then have c: "\<not> (GetName sdf5 = ''joint'' \<and> fst (Get asString [] sdf5 ''type'' []) \<noteq> ''ball'')"
      by (simp add: nonBallJoint_def)
    from loop_adds[OF False subset_refl, of errors4] obtain added where
      a: "checkRequiredElements_loop (elementDescriptions sdf5) sdf5 errors4
            = Some (True, setElements (elements sdf5 @ added) sdf5, errors4)"
      and b: "\<forall>d\<in>set (elementDescriptions sdf5). (GetRequired d = ''1'' \<or> GetRequired d = ''+'')
               \<longrightarrow> HasElement (setElements (elements sdf5 @ added) sdf5) (GetName d)"
      and e: "\<forall>a\<in>set added. \<exists>d\<in>set (elementDescriptions sdf5).
                (GetRequired d = ''1'' \<or> GetRequired d = ''+'')
               \<and> \<not> HasElement sdf5 (GetName d) \<and> a = defaultElement sdf5 (GetName d)"
      by blast
    have e': "\<forall>a\<in>set added. \<exists>d\<in>set (missingRequired sdf5). a = defaultElement sdf5 (GetName d)"
      using e by (fastforce simp: missingRequired_def)
    have r: "readXml env config (Some xml) sdf errors
               = Some (True, setElements (elements sdf5 @ added) sdf5, errors4)"
      using a rd by (simp add: checkRequiredElements_def)
    show ?thesis
      unfolding if_not_P[OF c]
      using r b e' by (intro exI[of _ added] conjI)
  qed
qed

theorem required_children_after_read_witness:
  "(\<exists>added. readXml ex_env ex_config (Some (XMLElement ''include'' [] None [])) ex_include []
               = Some (True, setElements ([] @ added) ex_include, [])
           \<and> HasElement (setElements ([] @ added) ex_include) ''uri'')
   \<and> (\<exists>msg sdf5. readXml ex_env ex_config
             (Some (XMLElement ''joint'' [(''name'', ''j''), (''type'', ''revolute'')] None []))
             ex_joint []
           = Some (False, sdf5, [] @ [Error ELEMENT_MISSING msg]))"
proof -
  let ?x = "XMLElement ''include'' [] None []"
  have a1: "readAttributes ex_env ex_config ?x (withReferenceSDF ex_env ex_include)
             (checkDeprecated ex_config ex_include []) = (True, ex_include, [])"
    by (simp add: ex_defs element_defs read_defs)
  have a2: "readValue ex_env ?x ex_include = (True, ex_include)"
    by (simp add: ex_defs element_defs read_defs)
  have a3: "\<not> GetCopyChildren ex_include"
    by (simp add: ex_defs element_defs)
  have a4: "readChildren ex_env ex_config (XValue ?x) (XChildren ?x) ex_include []
              = Some (True, ex_include, [])"
    by simp
  have a5: "copyChildren ex_env ex_include (XChildren ?x) True = Some ex_include"
    by simp
  have n: "GetName ex_include = ''include''" "elements ex_include = []"
    "ex_uri \<in> set (elementDescriptions ex_include)" "GetRequired ex_uri = ''1''"
    "GetName ex_uri = ''uri''"
    by (simp_all add: ex_defs element_defs)
  from required_children_after_read [OF a1 a2 a3 a4 a5] n
  have first: "\<exists>added. readXml ex_env ex_config (Some ?x) ex_include []
               = Some (True, setElements ([] @ added) ex_include, [])
           \<and> HasElement (setElements ([] @ added) ex_include) ''uri''"
    by (simp, metis)
  let ?j = "XMLElement ''joint'' [(''name'', ''j''), (''type'', ''revolute'')] None []"
  define sdf2 where "sdf2 = fst (snd (readAttributes ex_env ex_config ?j
             (withReferenceSDF ex_env ex_joint) (checkDeprecated ex_config ex_joint [])))"
  have b1: "readAttributes ex_env ex_config ?j (withReferenceSDF ex_env ex_joint)
             (checkDeprecated ex_config ex_joint []) = (True, sdf2, [])"
    unfolding sdf2_def by (simp add: ex_defs element_defs read_defs)
  have b2: "readValue ex_env ?j sdf2 = (True, sdf2)"
    unfolding sdf2_def by (simp add: ex_defs element_defs read_defs)
  have b3: "\<not> GetCopyChildren sdf2"
    unfolding sdf2_def by (simp add: ex_defs element_defs read_defs)
  have b4: "readChildren ex_env ex_config (XValue ?j) (XChildren ?j) sdf2 []
              = Some (True, sdf2, [])"
    by simp
  have b5: "copyChildren ex_env sdf2 (XChildren ?j) True = Some sdf2"
    by simp
  have m: "GetName sdf2 = ''joint''" "fst (Get asString [] sdf2 ''type'' []) = ''revolute''"
    "missingRequired sdf2 \<noteq> []"
    unfolding sdf2_def
    by (simp_all add: ex_defs element_defs read_defs missingRequired_def)
  from required_children_after_read [OF b1 b2 b3 b4 b5] m
  have second: "\<exists>msg sdf5. readXml ex_env ex_config (Some ?j) ex_joint []
           = Some (False, sdf5, [] @ [Error ELEMENT_MISSING msg])"
    by (simp, metis)
  from first second show ?thesis by blast
qed

text \<open>
  Claim C5 as stated fails for an element that copies its children: the loop over the
  child descriptions is in the other branch.  The element below has the required child
  description \<^verbatim>\<open>uri\<close>; read from an empty XML element it comes back without
  children, with the return value true and no error.
\<close>

theorem required_children_counterexample:
  "GetRequired (hd (elementDescriptions ex_copying)) = ''1''
   \<and> GetName (hd (elementDescriptions ex_copying)) = ''uri''
   \<and> readXml ex_env ex_config (Some (XMLElement ''plugin'' [] None [])) ex_copying []
       = Some (True, ex_copying, [])
   \<and> elements ex_copying = []"
  by (simp add: ex_defs element_defs read_defs)

section \<open>The element that an include inserts\<close>

text \<open>
  Claim C6, at the input where the code departs from it.  The included document has a
  \<^verbatim>\<open>light\<close> named \<^verbatim>\<open>sun\<close> followed by a \<^verbatim>\<open>model\<close> named \<^verbatim>\<open>M\<close>.  The loop
  over the preference order chooses the \<^verbatim>\<open>model\<close> as top-level element, and an
  \<^verbatim>\<open>ELEMENT_INCORRECT_TYPE\<close> error is recorded for the \<^verbatim>\<open>light\<close>; but the element
  inserted into the including \<^verbatim>\<open>world\<close> is the first element of the included root,
  the \<^verbatim>\<open>light\<close>, still under its own name although the include overrides the name.
\<close>

theorem include_inserts_first_element:
  "map (\<lambda>c. (GetName c, map_option val (GetAttribute c ''name'')))
       (elements ex_light_then_model) = [(''light'', Some ''sun''), (''model'', Some ''M'')]
   \<and> readFile ex_env ''lamp.sdf'' (includeSDFTemplate ex_env) = (True, ex_light_then_model, [])
   \<and> fst (topLevelLoop ex_light_then_model [''model'', ''actor'', ''light''] None [])
       = Some ''model''
   \<and> map_option
        (\<lambda>(ok, e, errs).
           (ok, map (\<lambda>c. (GetName c, map_option val (GetAttribute c ''name''))) (elements e),
            map Code errs))
        (readXml ex_env ex_config (Some ex_world_include) ex_world [])
      = Some (True, [(''light'', Some ''sun'')], [ELEMENT_INCORRECT_TYPE])"
  by (simp add: ex_defs element_defs merge_defs read_defs)

section \<open>The checks of readDoc\<close>

text \<open>
  Claim C8, as amended.  Let the document have an \<^verbatim>\<open>sdf\<close> element with a version
  attribute, and let it be read into an \<^verbatim>\<open>SDF\<close> object with a root element.  If, in
  the element of the (converted) document that is named like the root element, the first
  \<^verbatim>\<open>model\<close> child has a first \<^verbatim>\<open>pose\<close> child whose \<^verbatim>\<open>relative_to\<close>
  attribute is not empty, then \<^verbatim>\<open>checkXmlFromRoot\<close> appends an
  \<^verbatim>\<open>ATTRIBUTE_INVALID\<close> error and returns false, and \<^verbatim>\<open>readDoc\<close> appends an
  \<^verbatim>\<open>ELEMENT_INVALID\<close> error and returns false; the root element it leaves has the
  children and attributes it had before the call: nothing was read into it.
\<close>

theorem top_level_model_pose_precheck:
  assumes "Doc_FirstChildElement doc ''sdf'' = Some sdfNode"
    and "Attribute sdfNode ''version'' = Some version"
    and "sdfRoot sdf = Some r"
    and "Doc_FirstChildElement (convertedDoc env convert version doc)
           (GetName (preparedRoot env source version r)) = Some elemXml"
    and "FirstChildElement elemXml ''model'' = Some topLevelElem"
    and "FirstChildElement topLevelElem ''pose'' = Some topLevelPose"
    and "Attribute topLevelPose ''relative_to'' = Some relativeTo"
    and "relativeTo \<noteq> []"
  shows "\<exists>m1 m2.
           checkXmlFromRoot (Some elemXml) source errors
             = (False, errors @ [Error ATTRIBUTE_INVALID m1])
         \<and> readDoc env config (Some doc) (Some sdf) source convert errors
             = Some (False,
                     Some ((preparedSDF env source version sdf)
                             \<lparr>sdfRoot := Some (preparedRoot env source version r)\<rparr>),
                     errors @ [Error ATTRIBUTE_INVALID m1, Error ELEMENT_INVALID m2])
         \<and> elements (preparedRoot env source version r) = elements r
         \<and> attributes (impl (preparedRoot env source version r)) = attributes (impl r)"
  using assms
  by (simp add: readDoc_def checkXmlFromRoot_def Let_def preparedRoot_def SetFilePath_def
        SetOriginalVersion_def)

theorem top_level_model_pose_precheck_witness:
  "\<exists>m1 m2. readDoc ex_env ex_config (Some ex_doc_bad_pose) (Some ex_SDF) ''data-string'' True []
             = Some (False,
                     Some ((preparedSDF ex_env ''data-string'' ''1.9'' ex_SDF)
                        \<lparr>sdfRoot := Some (preparedRoot ex_env ''data-string'' ''1.9'' ex_sdf)\<rparr>),
                     [] @ [Error ATTRIBUTE_INVALID m1, Error ELEMENT_INVALID m2])"
proof -
  let ?sdfNode = "hd ex_doc_bad_pose"
  let ?model = "hd (XChildren ?sdfNode)"
  let ?pose = "hd (XChildren ?model)"
  have h1: "Doc_FirstChildElement ex_doc_bad_pose ''sdf'' = Some ?sdfNode"
    by (simp add: ex_doc_bad_pose_def Doc_FirstChildElement_def)
  have h2: "Attribute ?sdfNode ''version'' = Some ''1.9''"
    by (simp add: ex_doc_bad_pose_def Attribute_def)
  have h3: "sdfRoot ex_SDF = Some ex_sdf"
    by (simp add: ex_SDF_def)
  have h4: "Doc_FirstChildElement (convertedDoc ex_env True ''1.9'' ex_doc_bad_pose)
              (GetName (preparedRoot ex_env ''data-string'' ''1.9'' ex_sdf)) = Some ?sdfNode"
    by (simp add: ex_doc_bad_pose_def Doc_FirstChildElement_def convertedDoc_def
          preparedRoot_def ex_env_def ex_sdf_def description_def GetName_def
          OriginalVersion_def SetOriginalVersion_def)
  have h5: "FirstChildElement ?sdfNode ''model'' = Some ?model"
    by (simp add: ex_doc_bad_pose_def FirstChildElement_def)
  have h6: "FirstChildElement ?model ''pose'' = Some ?pose"
    by (simp add: ex_doc_bad_pose_def FirstChildElement_def)
  have h7: "Attribute ?pose ''relative_to'' = Some ''w''"
    by (simp add: ex_doc_bad_pose_def Attribute_def)
  have h8: "''w'' \<noteq> []" by simp
  from top_level_model_pose_precheck [OF h1 h2 h3 h4 h5 h6 h7 h8, of "[]" ex_config]
  show ?thesis by blast
qed

text \<open>
  Claim C8 as stated fails for a top-level model that is not the first one: in the
  document below the second \<^verbatim>\<open>model\<close> has a \<^verbatim>\<open>pose\<close> relative to \<^verbatim>\<open>m1\<close>,
  the check passes and \<^verbatim>\<open>readDoc\<close> returns true without an error.
\<close>

theorem top_level_model_pose_counterexample:
  "Doc_FirstChildElement ex_doc_two_models ''sdf'' = Some (hd ex_doc_two_models)
   \<and> XValue (XChildren (hd ex_doc_two_models) ! 1) = ''model''
   \<and> XValue (hd (XChildren (XChildren (hd ex_doc_two_models) ! 1))) = ''pose''
   \<and> Attribute (hd (XChildren (XChildren (hd ex_doc_two_models) ! 1))) ''relative_to''
       = Some ''m1''
   \<and> checkXmlFromRoot (Some (hd ex_doc_two_models)) ''data-string'' [] = (True, [])
   \<and> map_option (\<lambda>(ok, s, errs). (ok, errs))
        (readDoc ex_env ex_config (Some ex_doc_two_models) (Some ex_SDF) ''data-string'' True [])
      = Some (True, [])"
proof -
  have "Doc_FirstChildElement ex_doc_two_models ''sdf'' = Some (hd ex_doc_two_models)
   \<and> XValue (XChildren (hd ex_doc_two_models) ! 1) = ''model''
   \<and> XValue (hd (XChildren (XChildren (hd ex_doc_two_models) ! 1))) = ''pose''
   \<and> Attribute (hd (XChildren (XChildren (hd ex_doc_two_models) ! 1))) ''relative_to''
       = Some ''m1''
   \<and> checkXmlFromRoot (Some (hd ex_doc_two_models)) ''data-string'' [] = (True, [])"
    by (simp add: ex_doc_two_models_def Doc_FirstChildElement_def FirstChildElement_def
          Attribute_def checkXmlFromRoot_def)
  moreover have "map_option (\<lambda>(ok, s, errs). (ok, errs))
        (readDoc ex_env ex_config (Some ex_doc_two_models) (Some ex_SDF) ''data-string'' True [])
      = Some (True, [])"
    by (simp add: ex_defs element_defs merge_defs read_defs doc_defs)
  ultimately show ?thesis by blast
qed

lemma fold_conj: "fold (\<lambda>c r. f c \<and> r) es b \<longleftrightarrow> (b \<and> list_all f es)"
  by (induction es arbitrary: b) auto

lemma Get_name_attribute:
  "HasAttribute e ''name'' \<and> sublist ''::'' (fst (Get asString [] e ''name'' []))
     \<longleftrightarrow> hasDoubleColonName e"
  by (auto simp: HasAttribute_def Get_def hasDoubleColonName_def split: option.splits)

lemma recursiveSiblingNoDoubleColonInNames_iff:
  "recursiveSiblingNoDoubleColonInNames e
     \<longleftrightarrow> list_all (\<lambda>x. \<not> hasDoubleColonName x) (validatedElements e)"
proof (induction e rule: recursiveSiblingNoDoubleColonInNames.induct)
  case (1 i es ds inc)
  show ?case
  proof (cases "shouldValidateElement (Element i es ds inc)")
    case False
    then show ?thesis by simp
  next
    case True
    have "list_all recursiveSiblingNoDoubleColonInNames es
            \<longleftrightarrow> list_all (\<lambda>x. \<not> hasDoubleColonName x) (concat (map validatedElements es))"
      using 1[OF _] True by (induction es) (auto simp: list_all_iff)
    then show ?thesis
      using True
      by (simp only: recursiveSiblingNoDoubleColonInNames.simps validatedElements.simps
            fold_conj Get_name_attribute if_True if_False not_not list.pred_inject)
         auto
  qed
qed

text \<open>
  Claim C7, as amended.  When \<^verbatim>\<open>readDoc\<close> has read the document (the check of the
  XML passed and \<^verbatim>\<open>readXml\<close> returned true), the original version of the root
  element is at least 1.8, and some element of the tree that is neither a plugin, nor
  namespaced, nor below such an element has a \<^verbatim>\<open>name\<close> attribute containing
  \<^verbatim>\<open>::\<close>, then \<^verbatim>\<open>readDoc\<close> appends a \<^verbatim>\<open>RESERVED_NAME\<close> error and returns
  false.
\<close>

theorem double_colon_names_rejected:
  assumes "Doc_FirstChildElement doc ''sdf'' = Some sdfNode"
    and "Attribute sdfNode ''version'' = Some version"
    and "sdfRoot sdf = Some r"
    and "checkXmlFromRoot
           (Doc_FirstChildElement (convertedDoc env convert version doc)
              (GetName (preparedRoot env source version r))) source errors = (True, errors1)"
    and "readXml env config
           (Doc_FirstChildElement (convertedDoc env convert version doc)
              (GetName (preparedRoot env source version r)))
           (preparedRoot env source version r) errors1 = Some (True, r2, errors2)"
    and "versionAtLeast_1_8 env (OriginalVersion r2)"
    and "x \<in> set (validatedElements r2)"
    and "GetAttribute x ''name'' = Some p" and "sublist ''::'' (val p)"
  shows "\<exists>msg. readDoc env config (Some doc) (Some sdf) source convert errors
           = Some (False, Some ((preparedSDF env source version sdf)\<lparr>sdfRoot := Some r2\<rparr>),
                   errors2 @ [Error RESERVED_NAME msg])"
proof -
  have "hasDoubleColonName x" using assms(8,9) by (simp add: hasDoubleColonName_def)
  with assms(7) have "\<not> recursiveSiblingNoDoubleColonInNames r2"
    by (auto simp: recursiveSiblingNoDoubleColonInNames_iff list_all_iff)
  with assms(1-6) show ?thesis
    by (simp add: readDoc_def Let_def)
qed

theorem double_colon_names_rejected_witness:
  "\<exists>msg r2.
     readDoc ex_env ex_config (Some ex_doc_bad_name) (Some ex_SDF) ''data-string'' True []
       = Some (False, Some ((preparedSDF ex_env ''data-string'' ''1.9'' ex_SDF)\<lparr>sdfRoot := Some r2\<rparr>),
               [] @ [Error RESERVED_NAME msg])"
proof -
  let ?sdfNode = "hd ex_doc_bad_name"
  let ?elemXml = "Doc_FirstChildElement (convertedDoc ex_env True ''1.9'' ex_doc_bad_name)
              (GetName (preparedRoot ex_env ''data-string'' ''1.9'' ex_sdf))"
  define r2 where "r2 = fst (snd (the (readXml ex_env ex_config ?elemXml
                      (preparedRoot ex_env ''data-string'' ''1.9'' ex_sdf) [])))"
  have h1: "Doc_FirstChildElement ex_doc_bad_name ''sdf'' = Some ?sdfNode"
    by (simp add: ex_doc_bad_name_def Doc_FirstChildElement_def)
  have h2: "Attribute ?sdfNode ''version'' = Some ''1.9''"
    by (simp add: ex_doc_bad_name_def Attribute_def)
  have h3: "sdfRoot ex_SDF = Some ex_sdf"
    by (simp add: ex_SDF_def)
  have h4: "checkXmlFromRoot ?elemXml ''data-string'' [] = (True, [])"
    by (simp add: ex_doc_bad_name_def ex_defs element_defs read_defs doc_defs)
  have h5: "readXml ex_env ex_config ?elemXml
              (preparedRoot ex_env ''data-string'' ''1.9'' ex_sdf) [] = Some (True, r2, [])"
    unfolding r2_def
    by (simp add: ex_doc_bad_name_def ex_defs element_defs merge_defs read_defs doc_defs)
  have h6: "versionAtLeast_1_8 ex_env (OriginalVersion r2)"
    unfolding r2_def
    by (simp add: ex_doc_bad_name_def ex_defs element_defs merge_defs read_defs doc_defs)
  have h7: "hd (elements r2) \<in> set (validatedElements r2)"
    unfolding r2_def
    by (simp add: ex_doc_bad_name_def ex_defs element_defs merge_defs read_defs doc_defs)
  have h8: "GetAttribute (hd (elements r2)) ''name''
              = Some \<lparr> key = ''name'', typeName = ''string'', isRequired = False,
                       defaultValue = [], val = ''a::b'', isSet = True \<rparr>"
    unfolding r2_def
    by (simp add: ex_doc_bad_name_def ex_defs element_defs merge_defs read_defs doc_defs)
  have h9: "sublist ''::'' (val \<lparr> key = ''name'', typeName = ''string'', isRequired = False,
                       defaultValue = [], val = ''a::b'', isSet = True \<rparr>)"
    by (simp add: sublist_Cons_right)
  from double_colon_names_rejected [OF h1 h2 h3 h4 h5 h6 h7 h8 h9]
  show ?thesis by blast
qed

text \<open>
  Claim C7 as stated fails for the name of a plugin: the document below has version 1.9
  and a plugin named \<^verbatim>\<open>a::b\<close>; \<^verbatim>\<open>readDoc\<close> returns true with no error, and the
  plugin with that name is in the tree.
\<close>

theorem double_colon_names_counterexample:
  "map_option
     (\<lambda>(ok, s, errs).
        (ok, errs,
         map_option
           (\<lambda>r. (versionAtLeast_1_8 ex_env (OriginalVersion r),
                  map (\<lambda>m. (GetName m,
                             map (\<lambda>c. (GetName c, map_option val (GetAttribute c ''name'')))
                               (elements m)))
                    (elements r)))
           (Option.bind s sdfRoot)))
     (readDoc ex_env ex_config (Some ex_doc_plugin) (Some ex_SDF) ''data-string'' True [])
   = Some (True, [], Some (True, [(''model'', [(''plugin'', Some ''a::b'')])]))"
  by (simp add: ex_defs element_defs merge_defs read_defs doc_defs)

section \<open>Link::Load with an invalid inertia\<close>

text \<open>
  Claim C9.  When the element is a \<^verbatim>\<open>link\<close> and the mass matrix built from its
  inertial data is not valid, \<^verbatim>\<open>Link::Load\<close> returns an error list that ends with a
  \<^verbatim>\<open>LINK_INERTIA_INVALID\<close> error and holds, before it, the errors of the loads of the
  children; and the link it leaves has the name, the pose and its frame, the wind flag,
  the five child collections and the inertial data that the load reads from the element.
\<close>

theorem Link_Load_invalid_inertia:
  assumes "GetName sdf = ''link''"
    and "\<not> MassMatrix3d_IsValid env (MassMatrix (loadInertial sdf))"
  shows "(\<exists>before msg. fst (Link_Load env sdf this) = before @ [Error LINK_INERTIA_INVALID msg]
            \<and> set (fst (loadUniqueRepeated env sdf ''visual'')) \<subseteq> set before
            \<and> set (fst (loadUniqueRepeated env sdf ''collision'')) \<subseteq> set before
            \<and> set (fst (loadUniqueRepeated env sdf ''light'')) \<subseteq> set before
            \<and> set (fst (loadUniqueRepeated env sdf ''sensor'')) \<subseteq> set before
            \<and> set (fst (loadUniqueRepeated env sdf ''particle_emitter'')) \<subseteq> set before)
       \<and> link_name (snd (Link_Load env sdf this)) = snd (loadName sdf)
       \<and> pose (snd (Link_Load env sdf this))
           = fst (snd (loadPose sdf (pose this) (poseRelativeTo this)))
       \<and> poseRelativeTo (snd (Link_Load env sdf this))
           = snd (snd (loadPose sdf (pose this) (poseRelativeTo this)))
       \<and> enableWind (snd (Link_Load env sdf this))
           = fst (Get asBool False sdf ''enable_wind'' (enableWind this))
       \<and> visuals (snd (Link_Load env sdf this))
           = visuals this @ snd (loadUniqueRepeated env sdf ''visual'')
       \<and> collisions (snd (Link_Load env sdf this))
           = collisions this @ snd (loadUniqueRepeated env sdf ''collision'')
       \<and> lights (snd (Link_Load env sdf this))
           = lights this @ snd (loadUniqueRepeated env sdf ''light'')
       \<and> sensors (snd (Link_Load env sdf this))
           = sensors this @ snd (loadUniqueRepeated env sdf ''sensor'')
       \<and> emitters (snd (Link_Load env sdf this))
           = emitters this @ snd (loadUniqueRepeated env sdf ''particle_emitter'')
       \<and> inertial (snd (Link_Load env sdf this)) = loadInertial sdf"
proof -
  let ?before = "(if \<not> fst (loadName sdf)
          then [Error ATTRIBUTE_MISSING ''A link name is required, but the name is not set.'']
          else [])
         @ (if isReservedName env (snd (loadName sdf))
            then [Error RESERVED_NAME
                    (''The supplied link name ['' @ snd (loadName sdf) @ ''] is reserved.'')]
            else [])
         @ fst (loadUniqueRepeated env sdf ''visual'')
         @ fst (loadUniqueRepeated env sdf ''collision'')
         @ fst (loadUniqueRepeated env sdf ''light'')
         @ fst (loadUniqueRepeated env sdf ''sensor'')
         @ fst (loadUniqueRepeated env sdf ''particle_emitter'')"
  have e: "fst (Link_Load env sdf this)
             = ?before @ [Error LINK_INERTIA_INVALID
                    (''A link named '' @ snd (loadName sdf) @ '' has invalid inertia.'')]"
    using assms by (simp add: Link_Load_def)
  have "\<exists>before msg. fst (Link_Load env sdf this) = before @ [Error LINK_INERTIA_INVALID msg]
            \<and> set (fst (loadUniqueRepeated env sdf ''visual'')) \<subseteq> set before
            \<and> set (fst (loadUniqueRepeated env sdf ''collision'')) \<subseteq> set before
            \<and> set (fst (loadUniqueRepeated env sdf ''light'')) \<subseteq> set before
            \<and> set (fst (loadUniqueRepeated env sdf ''sensor'')) \<subseteq> set before
            \<and> set (fst (loadUniqueRepeated env sdf ''particle_emitter'')) \<subseteq> set before"
    by (rule exI[of _ ?before], rule exI, rule conjI, rule e) auto
  moreover have "link_name (snd (Link_Load env sdf this)) = snd (loadName sdf)
       \<and> pose (snd (Link_Load env sdf this))
           = fst (snd (loadPose sdf (pose this) (poseRelativeTo this)))
       \<and> poseRelativeTo (snd (Link_Load env sdf this))
           = snd (snd (loadPose sdf (pose this) (poseRelativeTo this)))
       \<and> enableWind (snd (Link_Load env sdf this))
           = fst (Get asBool False sdf ''enable_wind'' (enableWind this))
       \<and> visuals (snd (Link_Load env sdf this))
           = visuals this @ snd (loadUniqueRepeated env sdf ''visual'')
       \<and> collisions (snd (Link_Load env sdf this))
           = collisions this @ snd (loadUniqueRepeated env sdf ''collision'')
       \<and> lights (snd (Link_Load env sdf this))
           = lights this @ snd (loadUniqueRepeated env sdf ''light'')
       \<and> sensors (snd (Link_Load env sdf this))
           = sensors this @ snd (loadUniqueRepeated env sdf ''sensor'')
       \<and> emitters (snd (Link_Load env sdf this))
           = emitters this @ snd (loadUniqueRepeated env sdf ''particle_emitter'')
       \<and> inertial (snd (Link_Load env sdf this)) = loadInertial sdf"
    using assms(1) by (simp add: Link_Load_def)
  ultimately show ?thesis by blast
qed

theorem Link_Load_invalid_inertia_witness:
  "GetName ex_negative_mass_link = ''link''
   \<and> \<not> MassMatrix3d_IsValid ex_link_env (MassMatrix (loadInertial ex_negative_mass_link))
   \<and> (\<exists>before msg. fst (Link_Load ex_link_env ex_negative_mass_link Link_new)
                       = before @ [Error LINK_INERTIA_INVALID msg])
   \<and> link_name (snd (Link_Load ex_link_env ex_negative_mass_link Link_new)) = ''L''
   \<and> enableWind (snd (Link_Load ex_link_env ex_negative_mass_link Link_new)) = True
   \<and> visuals (snd (Link_Load ex_link_env ex_negative_mass_link Link_new))
       = [\<lparr> Name = ''v'', payload = () \<rparr>]
   \<and> Mass (MassMatrix (inertial (snd (Link_Load ex_link_env ex_negative_mass_link Link_new))))
       = - 1"
proof -
  have h1: "GetName ex_negative_mass_link = ''link''"
    by (simp add: ex_defs ex_link_defs element_defs)
  have h2: "\<not> MassMatrix3d_IsValid ex_link_env (MassMatrix (loadInertial ex_negative_mass_link))"
    by (simp add: ex_defs ex_link_defs element_defs link_defs)
  note c = Link_Load_invalid_inertia [OF h1 h2, of Link_new]
  from c have e: "\<exists>before msg. fst (Link_Load ex_link_env ex_negative_mass_link Link_new)
                       = before @ [Error LINK_INERTIA_INVALID msg]"
    by blast
  have r1: "snd (loadName ex_negative_mass_link) = ''L''"
    by (simp add: ex_defs ex_link_defs element_defs link_defs)
  have r2: "fst (Get asBool False ex_negative_mass_link ''enable_wind''
                   (enableWind (Link_new :: unit Link))) = True"
    by (simp add: ex_defs ex_link_defs element_defs link_defs)
  have r3: "visuals (Link_new :: unit Link)
              @ snd (loadUniqueRepeated ex_link_env ex_negative_mass_link ''visual'')
            = [\<lparr> Name = ''v'', payload = () \<rparr>]"
    by (simp add: ex_defs ex_link_defs element_defs link_defs)
  have r4: "Mass (MassMatrix (loadInertial ex_negative_mass_link)) = - 1"
    by (simp add: ex_defs ex_link_defs element_defs link_defs)
  from c have "link_name (snd (Link_Load ex_link_env ex_negative_mass_link Link_new)) = ''L''"
    and "enableWind (snd (Link_Load ex_link_env ex_negative_mass_link Link_new)) = True"
    and "visuals (snd (Link_Load ex_link_env ex_negative_mass_link Link_new))
           = [\<lparr> Name = ''v'', payload = () \<rparr>]"
    and "Mass (MassMatrix (inertial (snd (Link_Load ex_link_env ex_negative_mass_link Link_new))))
           = - 1"
    by (simp_all only: r1 r2 r3 r4)
  with h1 h2 e show ?thesis by blast
qed

section \<open>Properties of the Add operations\<close>

lemma NameExists_loop_iff: "NameExists_loop vs n \<longleftrightarrow> n \<in> Name ` set vs"
  by (induction vs) auto

lemma ByName_loop_None_iff: "ByName_loop vs n = None \<longleftrightarrow> n \<notin> Name ` set vs"
  by (induction vs) auto

lemma callAdd_namesDistinct: "namesDistinct l \<Longrightarrow> namesDistinct (callAdd c l)"
  by (cases c)
     (auto simp: namesDistinct_def AddCollision_def AddVisual_def AddLight_def
        AddSensor_def AddParticleEmitter_def CollisionNameExists_def VisualNameExists_def
        LightNameExists_def LightByName_def SensorNameExists_def
        ParticleEmitterNameExists_def NameExists_loop_iff ByName_loop_None_iff)

lemma callAdds_namesDistinct: "namesDistinct l \<Longrightarrow> namesDistinct (callAdds cs l)"
  by (induction cs arbitrary: l) (simp_all add: callAdd_namesDistinct)

lemma namesDistinct_Link_new: "namesDistinct Link_new"
  by (simp add: namesDistinct_def Link_new_def)

text \<open>
  Claim C10.  Each of the five Add operations of a link returns false and leaves the link
  as it was when the collection of that kind already holds a child of the same name, and
  otherwise appends the child at the end of that collection and returns true.  Hence a
  link whose collections have pairwise distinct names keeps them so under every sequence
  of Add calls, and so does a freshly constructed link.
\<close>

theorem Link_Add_unique_names:
  fixes l :: "'x Link"
  shows "AddVisual l c =
           (if Name c \<in> Name ` set (visuals l) then (False, l)
            else (True, l\<lparr>visuals := visuals l @ [c]\<rparr>))
       \<and> AddCollision l c =
           (if Name c \<in> Name ` set (collisions l) then (False, l)
            else (True, l\<lparr>collisions := collisions l @ [c]\<rparr>))
       \<and> AddLight l c =
           (if Name c \<in> Name ` set (lights l) then (False, l)
            else (True, l\<lparr>lights := lights l @ [c]\<rparr>))
       \<and> AddSensor l c =
           (if Name c \<in> Name ` set (sensors l) then (False, l)
            else (True, l\<lparr>sensors := sensors l @ [c]\<rparr>))
       \<and> AddParticleEmitter l c =
           (if Name c \<in> Name ` set (emitters l) then (False, l)
            else (True, l\<lparr>emitters := emitters l @ [c]\<rparr>))
       \<and> (namesDistinct l \<longrightarrow> namesDistinct (callAdds cs l))
       \<and> namesDistinct (callAdds cs (Link_new :: 'x Link))"
  by (simp add: AddCollision_def AddVisual_def AddLight_def
        AddSensor_def AddParticleEmitter_def CollisionNameExists_def VisualNameExists_def
        LightNameExists_def LightByName_def SensorNameExists_def
        ParticleEmitterNameExists_def NameExists_loop_iff ByName_loop_None_iff
        callAdds_namesDistinct namesDistinct_Link_new)

theorem Link_Add_unique_names_witness:
  "AddVisual (snd (AddVisual (Link_new :: unit Link) \<lparr>Name = ''v'', payload = ()\<rparr>))
       \<lparr>Name = ''v'', payload = ()\<rparr>
     = (False, snd (AddVisual (Link_new :: unit Link) \<lparr>Name = ''v'', payload = ()\<rparr>))
   \<and> visuals (snd (AddVisual (Link_new :: unit Link) \<lparr>Name = ''v'', payload = ()\<rparr>))
     = [\<lparr>Name = ''v'', payload = ()\<rparr>]
   \<and> namesDistinct (Link_new :: unit Link)
   \<and> namesDistinct (callAdds [CallAddVisual \<lparr>Name = ''v'', payload = ()\<rparr>,
                              CallAddVisual \<lparr>Name = ''v'', payload = ()\<rparr>,
                              CallAddLight \<lparr>Name = ''v'', payload = ()\<rparr>] (Link_new :: unit Link))
   \<and> visuals (callAdds [CallAddVisual \<lparr>Name = ''v'', payload = ()\<rparr>,
                              CallAddVisual \<lparr>Name = ''v'', payload = ()\<rparr>,
                              CallAddLight \<lparr>Name = ''v'', payload = ()\<rparr>] (Link_new :: unit Link))
      = [\<lparr>Name = ''v'', payload = ()\<rparr>]"
  using Link_Add_unique_names [of "Link_new :: unit Link" "\<lparr>Name = ''v'', payload = ()\<rparr>"
          "[CallAddVisual \<lparr>Name = ''v'', payload = ()\<rparr>,
                              CallAddVisual \<lparr>Name = ''v'', payload = ()\<rparr>,
                              CallAddLight \<lparr>Name = ''v'', payload = ()\<rparr>]"]
        Link_Add_unique_names [of "snd (AddVisual (Link_new :: unit Link) \<lparr>Name = ''v'', payload = ()\<rparr>)"
           "\<lparr>Name = ''v'', payload = ()\<rparr>" "[]"]
  by (simp add: Link_new_def namesDistinct_def)

end
